theory Spec2Isabelle
  imports Main
begin

section \<open>Values, sinks and configuration\<close>

text \<open>
  The rotating file sink of the rotation library, as the composite literal of
  \<^verbatim>\<open>getWriter\<close> fills it. Go's \<^verbatim>\<open>int\<close> is modelled by \<^typ>\<open>int\<close>: the
  program only compares these fields with zero and stores constants in them, so no
  arithmetic can wrap.
\<close>

record lumberjack_Logger =
  Filename :: string
  MaxSize :: int
  MaxBackups :: int
  MaxAge :: int
  Compress :: bool

text \<open>
  The non-nil values of interface type \<^verbatim>\<open>io.Writer\<close>: the process's standard output,
  a rotating file sink, or any other value whose dynamic type has a \<^verbatim>\<open>Write\<close> method
  (identified by a number). Of the last kind there are two: a \<^verbatim>\<open>ForeignWriter\<close> is a
  sink whose \<^verbatim>\<open>Write\<close> returns without calling into this package, a
  \<^verbatim>\<open>FaultyWriter\<close> one whose \<^verbatim>\<open>Write\<close> panics, as that of a nil pointer held in the
  interface does for most sink types. A sink whose \<^verbatim>\<open>Write\<close> never returns, or calls
  back into this package, is not modelled.
\<close>

datatype io_Writer =
  os_Stdout | Lumberjack lumberjack_Logger | ForeignWriter nat | FaultyWriter nat

text \<open>
  A value of type \<^verbatim>\<open>interface{}\<close>, split by what a type switch can see of it: the nil
  interface, a \<^verbatim>\<open>string\<close>, a value implementing \<^verbatim>\<open>io.Writer\<close>, or a value of some other
  dynamic type (an integer, a struct without methods, ...).
\<close>

datatype go_value = VNil | VString string | VWriter io_Writer | VOther nat

record LogConfig =
  FilenameOrIoWriter :: go_value
  FileMaxSize :: int
  FileMaxBackup :: int
  FileMaxAge :: int
  FileCompress :: bool

datatype go_error = errors_New string

fun Error_of :: "go_error \<Rightarrow> string" where
  "Error_of (errors_New m) = m"

text \<open>
  \<^verbatim>\<open>getWriter\<close>, on the struct its argument points to. It is unexported and its only
  caller, \<^verbatim>\<open>NewZapLogger\<close>, has already read through the pointer, so the pointer is
  not nil here. The type switch tries \<^verbatim>\<open>string\<close> first, then \<^verbatim>\<open>io.Writer\<close>.
\<close>

fun getWriter :: "LogConfig \<Rightarrow> go_error + io_Writer" where
  "getWriter c =
     (case FilenameOrIoWriter c of
        VString path \<Rightarrow>
          Inr (Lumberjack \<lparr>Filename = path, MaxSize = FileMaxSize c,
                           MaxBackups = FileMaxBackup c, MaxAge = FileMaxAge c,
                           Compress = FileCompress c\<rparr>)
      | VWriter w \<Rightarrow> Inr w
      | _ \<Rightarrow> Inl (errors_New ''string / io.Writer only''))"

section \<open>The logging engine's data\<close>

text \<open>
  Modelled from the spec: the logging engine and its constructors belong to an external
  library that is not among the repository's sources. The spec's section 4.2 says what
  the package builds from them: a text encoder with a fixed timestamp format and a fixed
  level-label casing, the resolved sink wrapped for concurrent writes, a core that
  filters by the caller's threshold, and a structured and a template-style front end over
  that core, capturing the caller one frame above the wrapper. The types below are plain
  data recording what the package passes to each constructor; an engine is built for
  development only if that option is given.
\<close>

datatype Level =
  DebugLevel | InfoLevel | WarnLevel | ErrorLevel | DPanicLevel | PanicLevel | FatalLevel

text \<open>
  A threshold is a value of an interface type with an \<^verbatim>\<open>Enabled(Level) bool\<close> method:
  a level constant such as \<^verbatim>\<open>zap.DebugLevel\<close>, a predicate supplied by the caller
  (taken to return an answer), or the nil interface, which the package accepts
  unchecked. A level constant admits the
  severities from itself upwards, in the order debug, info, warn, error, dpanic, panic,
  fatal. Calling the method on the nil interface panics (\<^const>\<open>None\<close>).
\<close>

datatype LevelEnabler = LevelOf Level | LevelEnablerFunc "Level \<Rightarrow> bool" | NilEnabler

fun level_rank :: "Level \<Rightarrow> nat" where
  "level_rank DebugLevel = 0"
| "level_rank InfoLevel = 1"
| "level_rank WarnLevel = 2"
| "level_rank ErrorLevel = 3"
| "level_rank DPanicLevel = 4"
| "level_rank PanicLevel = 5"
| "level_rank FatalLevel = 6"

fun Enabled :: "LevelEnabler \<Rightarrow> Level \<Rightarrow> bool option" where
  "Enabled (LevelOf l) lvl = Some (level_rank l \<le> level_rank lvl)"
| "Enabled (LevelEnablerFunc p) lvl = Some (p lvl)"
| "Enabled NilEnabler lvl = None"

datatype TimeEncoder = EpochTimeEncoder | ISO8601TimeEncoder

datatype LevelEncoder = LowercaseLevelEncoder | CapitalLevelEncoder

record EncoderConfig =
  EncodeTime :: TimeEncoder
  EncodeLevel :: LevelEncoder

datatype Encoder = NewConsoleEncoder EncoderConfig

definition NewProductionEncoderConfig :: EncoderConfig where
  "NewProductionEncoderConfig =
     \<lparr>EncodeTime = EpochTimeEncoder, EncodeLevel = LowercaseLevelEncoder\<rparr>"

definition getEncoder :: Encoder where
  "getEncoder =
     (let encoderConfig = NewProductionEncoderConfig;
          encoderConfig = encoderConfig\<lparr>EncodeTime := ISO8601TimeEncoder\<rparr>;
          encoderConfig = encoderConfig\<lparr>EncodeLevel := CapitalLevelEncoder\<rparr>
      in NewConsoleEncoder encoderConfig)"

datatype WriteSyncer = AddSync io_Writer

fun Write_returns :: "WriteSyncer \<Rightarrow> bool" where
  "Write_returns (AddSync (FaultyWriter n)) = False"
| "Write_returns (AddSync w) = True"

record Core =
  enc :: Encoder
  out :: WriteSyncer
  enab :: LevelEnabler

definition NewCore :: "Encoder \<Rightarrow> WriteSyncer \<Rightarrow> LevelEnabler \<Rightarrow> Core" where
  "NewCore e ws en = \<lparr>enc = e, out = ws, enab = en\<rparr>"

record zap_Logger =
  core :: Core
  addCaller :: bool
  callerSkip :: int
  development :: bool

datatype zap_Option = AddCaller | AddCallerSkip int | Development

fun apply_Option :: "zap_Logger \<Rightarrow> zap_Option \<Rightarrow> zap_Logger" where
  "apply_Option l AddCaller = l\<lparr>addCaller := True\<rparr>"
| "apply_Option l (AddCallerSkip n) = l\<lparr>callerSkip := callerSkip l + n\<rparr>"
| "apply_Option l Development = l\<lparr>development := True\<rparr>"

definition zap_New :: "Core \<Rightarrow> zap_Option list \<Rightarrow> zap_Logger" where
  "zap_New c opts =
     foldl apply_Option
       \<lparr>core = c, addCaller = False, callerSkip = 0, development = False\<rparr> opts"

datatype SugaredLogger = Sugar zap_Logger

section \<open>Handles, the global slot and the process state\<close>

text \<open>
  Every field of a handle is a pointer or an interface, so each may be nil
  (\<^const>\<open>None\<close>). The \<^verbatim>\<open>config\<close> field holds the address of a configuration struct in
  the store, not a copy of the struct.
\<close>

record ZapLogger =
  sugarLogger :: "SugaredLogger option"
  zapLogger :: "zap_Logger option"
  logWriter :: "io_Writer option"
  config :: "nat option"

datatype call_form = Plain | Formatted string

text \<open>One call handed to a logging engine: which engine, the severity, and what was passed.\<close>

record emission =
  engine :: zap_Logger
  severity :: Level
  form :: call_form
  arguments :: "go_value list"

record RWMutex =
  readerCount :: nat
  writerHeld :: bool

text \<open>
  The process state: the store of configuration structs (an address is an index),
  the two package variables, the calls made on logging engines so far
  (\<^verbatim>\<open>emitted\<close>), and of these the ones that passed their engine's threshold and were
  handed as a record to its sink's \<^verbatim>\<open>Write\<close>, which returned (\<^verbatim>\<open>recorded\<close>).
\<close>

record state =
  heap :: "LogConfig list"
  defaultZapLogger :: "ZapLogger option"
  resetLock :: RWMutex
  emitted :: "emission list"
  recorded :: "emission list"

datatype panic_value =
  NilDereference | PanicString string | EnginePanic emission | SinkPanic

text \<open>
  How a call ends: it returns a value in a new state; it panics; the process exits; or
  it waits for the lock for ever. The package recovers no panic, so a panic ends the
  thread of control the model follows just as an exit does, and of both only the value
  and the calls made on engines so far are kept. (A lock held at a panic stays held.)
\<close>

datatype 'a outcome =
  Returns 'a state | Panics panic_value "emission list" | Exits "emission list" | Blocks

definition andThen :: "'a outcome \<Rightarrow> ('a \<Rightarrow> state \<Rightarrow> 'b outcome) \<Rightarrow> 'b outcome" where
  "andThen m f =
     (case m of
        Returns a s \<Rightarrow> f a s
      | Panics v tr \<Rightarrow> Panics v tr
      | Exits tr \<Rightarrow> Exits tr
      | Blocks \<Rightarrow> Blocks)"

subsection \<open>The read/write lock, for one thread of control\<close>

text \<open>
  The lock as one thread of control sees it. A lock that cannot be taken is held by a
  call that never released it, so waiting for it never ends. Releasing a lock that is
  not held is a fatal runtime error, which ends the process.
\<close>

definition Lock :: "state \<Rightarrow> unit outcome" where
  "Lock s =
     (if writerHeld (resetLock s) \<or> 0 < readerCount (resetLock s) then Blocks
      else Returns () (s\<lparr>resetLock := (resetLock s)\<lparr>writerHeld := True\<rparr>\<rparr>))"

definition Unlock :: "state \<Rightarrow> unit outcome" where
  "Unlock s =
     (if writerHeld (resetLock s)
      then Returns () (s\<lparr>resetLock := (resetLock s)\<lparr>writerHeld := False\<rparr>\<rparr>)
      else Exits (emitted s))"

definition RLock :: "state \<Rightarrow> unit outcome" where
  "RLock s =
     (if writerHeld (resetLock s) then Blocks
      else Returns ()
        (s\<lparr>resetLock := (resetLock s)\<lparr>readerCount := Suc (readerCount (resetLock s))\<rparr>\<rparr>))"

definition RUnlock :: "state \<Rightarrow> unit outcome" where
  "RUnlock s =
     (case readerCount (resetLock s) of
        0 \<Rightarrow> Exits (emitted s)
      | Suc n \<Rightarrow> Returns () (s\<lparr>resetLock := (resetLock s)\<lparr>readerCount := n\<rparr>\<rparr>))"

subsection \<open>The store of configuration structs\<close>

text \<open>
  A pointer to a configuration is \<^const>\<open>None\<close> (nil) or an address. Reading through
  nil fails. A Go program holds no address beyond the store; the model treats such an
  address like nil.
\<close>

definition load :: "nat option \<Rightarrow> state \<Rightarrow> LogConfig option" where
  "load p s =
     (case p of
        None \<Rightarrow> None
      | Some a \<Rightarrow> if a < length (heap s) then Some (heap s ! a) else None)"

definition store :: "nat option \<Rightarrow> LogConfig \<Rightarrow> state \<Rightarrow> state" where
  "store p c s =
     (case p of
        None \<Rightarrow> s
      | Some a \<Rightarrow> s\<lparr>heap := (heap s)[a := c]\<rparr>)"

section \<open>Construction\<close>

text \<open>
  \<^verbatim>\<open>NewZapLogger\<close>. The first field read through a nil \<^verbatim>\<open>config\<close> panics. Every
  assignment to a field of \<^verbatim>\<open>config\<close> is a write to the caller's struct in the store.
\<close>

definition NewZapLogger :: "nat option \<Rightarrow> LevelEnabler \<Rightarrow> state \<Rightarrow> ZapLogger outcome" where
  "NewZapLogger cfg logLevel s =
     (case load cfg s of
        None \<Rightarrow> Panics NilDereference (emitted s)
      | Some c0 \<Rightarrow>
          let c1 = (if FileMaxAge c0 \<le> 0 then c0\<lparr>FileMaxAge := 30\<rparr> else c0);
              c2 = (if FileMaxBackup c1 \<le> 0 then c1\<lparr>FileMaxBackup := 3\<rparr> else c1);
              c3 = (if FileMaxSize c2 \<le> 0 then c2\<lparr>FileMaxSize := 100\<rparr> else c2);
              zl = \<lparr>sugarLogger = None, zapLogger = None, logWriter = None, config = None\<rparr>;
              zl = zl\<lparr>config := cfg\<rparr>
          in andThen
               (case getWriter c3 of
                  Inr w \<Rightarrow> Returns w (store cfg c3 s)
                | Inl err \<Rightarrow>
                    let c4 = c3\<lparr>FilenameOrIoWriter := VWriter os_Stdout\<rparr>
                    in (case getWriter c4 of
                          Inr w \<Rightarrow> Returns w (store cfg c4 s)
                        | Inl err2 \<Rightarrow>
                            Panics
                              (PanicString
                                 (''Fail to enable default logWriter: '' @ Error_of err2))
                              (emitted s)))
               (\<lambda>w s'.
                  let zl = zl\<lparr>logWriter := Some w\<rparr>;
                      encoder = getEncoder;
                      core = NewCore encoder (AddSync w) logLevel;
                      zl = zl\<lparr>zapLogger := Some (zap_New core [AddCaller, AddCallerSkip 1])\<rparr>;
                      zl = zl\<lparr>sugarLogger := map_option Sugar (zapLogger zl)\<rparr>
                  in Returns zl s'))"

text \<open>
  \<^verbatim>\<open>InitDefaultLogger\<close>: the write lock is taken before construction and released
  after the assignment, with no deferred release.
\<close>

definition InitDefaultLogger :: "nat option \<Rightarrow> LevelEnabler \<Rightarrow> state \<Rightarrow> unit outcome" where
  "InitDefaultLogger cfg logLevel s =
     andThen (Lock s) (\<lambda>_ s1.
     andThen (NewZapLogger cfg logLevel s1) (\<lambda>zl s2.
     Unlock (s2\<lparr>defaultZapLogger := Some zl\<rparr>)))"

text \<open>
  The state in which the package's \<^verbatim>\<open>init\<close> runs: nothing allocated, both package
  variables at their zero values. \<^verbatim>\<open>init\<close> allocates an empty configuration struct
  and passes its address on.
\<close>

definition zero_state :: state where
  "zero_state =
     \<lparr>heap = [], defaultZapLogger = None,
      resetLock = \<lparr>readerCount = 0, writerHeld = False\<rparr>, emitted = [], recorded = []\<rparr>"

definition zero_LogConfig :: LogConfig where
  "zero_LogConfig =
     \<lparr>FilenameOrIoWriter = VNil, FileMaxSize = 0, FileMaxBackup = 0, FileMaxAge = 0,
      FileCompress = False\<rparr>"

definition init :: "state \<Rightarrow> unit outcome" where
  "init s =
     InitDefaultLogger (Some (length (heap s))) (LevelOf DebugLevel)
       (s\<lparr>heap := heap s @ [zero_LogConfig]\<rparr>)"

section \<open>Emission\<close>

text \<open>
  Modelled from the spec: the logging engine is an external library whose code is
  not part of the repository's sources. What a call on its template-style front end
  does is taken from the spec's sections 4.2, 5 and 7 and its glossary. The call is
  noted in \<^verbatim>\<open>emitted\<close>. The core asks the threshold whether the severity is admitted;
  if so, the record is written to the sink, synchronously, and noted in
  \<^verbatim>\<open>recorded\<close>; whether the sink reports an error is not passed on. Then a
  fatal-severity emission terminates the process, a panic-severity emission panics, a
  dpanic-severity emission panics only on an engine built for development, and every
  other emission returns. A call through a nil engine pointer, a nil threshold, or into
  a sink whose \<^verbatim>\<open>Write\<close> panics, panics.
\<close>

definition SugaredLogger_log ::
  "SugaredLogger option \<Rightarrow> Level \<Rightarrow> call_form \<Rightarrow> go_value list \<Rightarrow> state \<Rightarrow> unit outcome" where
  "SugaredLogger_log sl lvl f args s =
     (case sl of
        None \<Rightarrow> Panics NilDereference (emitted s)
      | Some (Sugar base) \<Rightarrow>
          let e = \<lparr>engine = base, severity = lvl, form = f, arguments = args\<rparr>;
              s1 = s\<lparr>emitted := emitted s @ [e]\<rparr>
          in andThen
               (case Enabled (enab (core base)) lvl of
                  None \<Rightarrow> Panics NilDereference (emitted s1)
                | Some False \<Rightarrow> Returns () s1
                | Some True \<Rightarrow>
                    if Write_returns (out (core base))
                    then Returns () (s1\<lparr>recorded := recorded s1 @ [e]\<rparr>)
                    else Panics SinkPanic (emitted s1))
               (\<lambda>_ s2.
                  case lvl of
                    FatalLevel \<Rightarrow> Exits (emitted s2)
                  | PanicLevel \<Rightarrow> Panics (EnginePanic e) (emitted s2)
                  | DPanicLevel \<Rightarrow>
                      if development base then Panics (EnginePanic e) (emitted s2)
                      else Returns () s2
                  | _ \<Rightarrow> Returns () s2))"

text \<open>Reading the \<^verbatim>\<open>sugarLogger\<close> field through a handle pointer, which may be nil.\<close>

definition sugarLogger_of :: "ZapLogger option \<Rightarrow> state \<Rightarrow> (SugaredLogger option) outcome" where
  "sugarLogger_of z s =
     (case z of
        None \<Rightarrow> Panics NilDereference (emitted s)
      | Some zl \<Rightarrow> Returns (sugarLogger zl) s)"

subsection \<open>Instance-scoped methods\<close>

definition GetSugarLogger :: "ZapLogger option \<Rightarrow> state \<Rightarrow> (SugaredLogger option) outcome" where
  "GetSugarLogger z s = sugarLogger_of z s"

definition GetZapLogger :: "ZapLogger option \<Rightarrow> state \<Rightarrow> (zap_Logger option) outcome" where
  "GetZapLogger z s =
     (case z of
        None \<Rightarrow> Panics NilDereference (emitted s)
      | Some zl \<Rightarrow> Returns (zapLogger zl) s)"

definition ZapLogger_Debug :: "ZapLogger option \<Rightarrow> go_value list \<Rightarrow> state \<Rightarrow> unit outcome" where
  "ZapLogger_Debug z args s =
     andThen (sugarLogger_of z s) (\<lambda>sl. SugaredLogger_log sl DebugLevel Plain args)"

definition ZapLogger_Debugf ::
  "ZapLogger option \<Rightarrow> string \<Rightarrow> go_value list \<Rightarrow> state \<Rightarrow> unit outcome" where
  "ZapLogger_Debugf z template args s =
     andThen (sugarLogger_of z s) (\<lambda>sl. SugaredLogger_log sl DebugLevel (Formatted template) args)"

definition ZapLogger_Info :: "ZapLogger option \<Rightarrow> go_value list \<Rightarrow> state \<Rightarrow> unit outcome" where
  "ZapLogger_Info z args s =
     andThen (sugarLogger_of z s) (\<lambda>sl. SugaredLogger_log sl InfoLevel Plain args)"

definition ZapLogger_Infof ::
  "ZapLogger option \<Rightarrow> string \<Rightarrow> go_value list \<Rightarrow> state \<Rightarrow> unit outcome" where
  "ZapLogger_Infof z template args s =
     andThen (sugarLogger_of z s) (\<lambda>sl. SugaredLogger_log sl InfoLevel (Formatted template) args)"

definition ZapLogger_Warn :: "ZapLogger option \<Rightarrow> go_value list \<Rightarrow> state \<Rightarrow> unit outcome" where
  "ZapLogger_Warn z args s =
     andThen (sugarLogger_of z s) (\<lambda>sl. SugaredLogger_log sl WarnLevel Plain args)"

definition ZapLogger_Warnf ::
  "ZapLogger option \<Rightarrow> string \<Rightarrow> go_value list \<Rightarrow> state \<Rightarrow> unit outcome" where
  "ZapLogger_Warnf z template args s =
     andThen (sugarLogger_of z s) (\<lambda>sl. SugaredLogger_log sl WarnLevel (Formatted template) args)"

definition ZapLogger_Fatal :: "ZapLogger option \<Rightarrow> go_value list \<Rightarrow> state \<Rightarrow> unit outcome" where
  "ZapLogger_Fatal z args s =
     andThen (sugarLogger_of z s) (\<lambda>sl. SugaredLogger_log sl FatalLevel Plain args)"

definition ZapLogger_Fatalf ::
  "ZapLogger option \<Rightarrow> string \<Rightarrow> go_value list \<Rightarrow> state \<Rightarrow> unit outcome" where
  "ZapLogger_Fatalf z template args s =
     andThen (sugarLogger_of z s) (\<lambda>sl. SugaredLogger_log sl FatalLevel (Formatted template) args)"

definition ZapLogger_Error :: "ZapLogger option \<Rightarrow> go_value list \<Rightarrow> state \<Rightarrow> unit outcome" where
  "ZapLogger_Error z args s =
     andThen (sugarLogger_of z s) (\<lambda>sl. SugaredLogger_log sl ErrorLevel Plain args)"

definition ZapLogger_Errorf ::
  "ZapLogger option \<Rightarrow> string \<Rightarrow> go_value list \<Rightarrow> state \<Rightarrow> unit outcome" where
  "ZapLogger_Errorf z template args s =
     andThen (sugarLogger_of z s) (\<lambda>sl. SugaredLogger_log sl ErrorLevel (Formatted template) args)"

definition ZapLogger_DPanic :: "ZapLogger option \<Rightarrow> go_value list \<Rightarrow> state \<Rightarrow> unit outcome" where
  "ZapLogger_DPanic z args s =
     andThen (sugarLogger_of z s) (\<lambda>sl. SugaredLogger_log sl DPanicLevel Plain args)"

definition ZapLogger_DPanicf ::
  "ZapLogger option \<Rightarrow> string \<Rightarrow> go_value list \<Rightarrow> state \<Rightarrow> unit outcome" where
  "ZapLogger_DPanicf z template args s =
     andThen (sugarLogger_of z s) (\<lambda>sl. SugaredLogger_log sl DPanicLevel (Formatted template) args)"

subsection \<open>Global functions\<close>

text \<open>
  Each takes the read lock, calls the engine of whatever handle the global slot holds,
  and releases the lock; the release is not deferred, so it is skipped when the
  engine call does not return.
\<close>

definition Debug :: "go_value list \<Rightarrow> state \<Rightarrow> unit outcome" where
  "Debug args s =
     andThen (RLock s) (\<lambda>_ s1.
     andThen (sugarLogger_of (defaultZapLogger s1) s1) (\<lambda>sl s2.
     andThen (SugaredLogger_log sl DebugLevel Plain args s2) (\<lambda>_ s3.
     RUnlock s3)))"

definition Debugf :: "string \<Rightarrow> go_value list \<Rightarrow> state \<Rightarrow> unit outcome" where
  "Debugf template args s =
     andThen (RLock s) (\<lambda>_ s1.
     andThen (sugarLogger_of (defaultZapLogger s1) s1) (\<lambda>sl s2.
     andThen (SugaredLogger_log sl DebugLevel (Formatted template) args s2) (\<lambda>_ s3.
     RUnlock s3)))"

definition Info :: "go_value list \<Rightarrow> state \<Rightarrow> unit outcome" where
  "Info args s =
     andThen (RLock s) (\<lambda>_ s1.
     andThen (sugarLogger_of (defaultZapLogger s1) s1) (\<lambda>sl s2.
     andThen (SugaredLogger_log sl InfoLevel Plain args s2) (\<lambda>_ s3.
     RUnlock s3)))"

definition Infof :: "string \<Rightarrow> go_value list \<Rightarrow> state \<Rightarrow> unit outcome" where
  "Infof template args s =
     andThen (RLock s) (\<lambda>_ s1.
     andThen (sugarLogger_of (defaultZapLogger s1) s1) (\<lambda>sl s2.
     andThen (SugaredLogger_log sl InfoLevel (Formatted template) args s2) (\<lambda>_ s3.
     RUnlock s3)))"

definition Warn :: "go_value list \<Rightarrow> state \<Rightarrow> unit outcome" where
  "Warn args s =
     andThen (RLock s) (\<lambda>_ s1.
     andThen (sugarLogger_of (defaultZapLogger s1) s1) (\<lambda>sl s2.
     andThen (SugaredLogger_log sl WarnLevel Plain args s2) (\<lambda>_ s3.
     RUnlock s3)))"

definition Warnf :: "string \<Rightarrow> go_value list \<Rightarrow> state \<Rightarrow> unit outcome" where
  "Warnf template args s =
     andThen (RLock s) (\<lambda>_ s1.
     andThen (sugarLogger_of (defaultZapLogger s1) s1) (\<lambda>sl s2.
     andThen (SugaredLogger_log sl WarnLevel (Formatted template) args s2) (\<lambda>_ s3.
     RUnlock s3)))"

definition Fatal :: "go_value list \<Rightarrow> state \<Rightarrow> unit outcome" where
  "Fatal args s =
     andThen (RLock s) (\<lambda>_ s1.
     andThen (sugarLogger_of (defaultZapLogger s1) s1) (\<lambda>sl s2.
     andThen (SugaredLogger_log sl FatalLevel Plain args s2) (\<lambda>_ s3.
     RUnlock s3)))"

definition Fatalf :: "string \<Rightarrow> go_value list \<Rightarrow> state \<Rightarrow> unit outcome" where
  "Fatalf template args s =
     andThen (RLock s) (\<lambda>_ s1.
     andThen (sugarLogger_of (defaultZapLogger s1) s1) (\<lambda>sl s2.
     andThen (SugaredLogger_log sl FatalLevel (Formatted template) args s2) (\<lambda>_ s3.
     RUnlock s3)))"

definition Error :: "go_value list \<Rightarrow> state \<Rightarrow> unit outcome" where
  "Error args s =
     andThen (RLock s) (\<lambda>_ s1.
     andThen (sugarLogger_of (defaultZapLogger s1) s1) (\<lambda>sl s2.
     andThen (SugaredLogger_log sl ErrorLevel Plain args s2) (\<lambda>_ s3.
     RUnlock s3)))"

definition Errorf :: "string \<Rightarrow> go_value list \<Rightarrow> state \<Rightarrow> unit outcome" where
  "Errorf template args s =
     andThen (RLock s) (\<lambda>_ s1.
     andThen (sugarLogger_of (defaultZapLogger s1) s1) (\<lambda>sl s2.
     andThen (SugaredLogger_log sl ErrorLevel (Formatted template) args s2) (\<lambda>_ s3.
     RUnlock s3)))"

definition DPanic :: "go_value list \<Rightarrow> state \<Rightarrow> unit outcome" where
  "DPanic args s =
     andThen (RLock s) (\<lambda>_ s1.
     andThen (sugarLogger_of (defaultZapLogger s1) s1) (\<lambda>sl s2.
     andThen (SugaredLogger_log sl DPanicLevel Plain args s2) (\<lambda>_ s3.
     RUnlock s3)))"

definition DPanicf :: "string \<Rightarrow> go_value list \<Rightarrow> state \<Rightarrow> unit outcome" where
  "DPanicf template args s =
     andThen (RLock s) (\<lambda>_ s1.
     andThen (sugarLogger_of (defaultZapLogger s1) s1) (\<lambda>sl s2.
     andThen (SugaredLogger_log sl DPanicLevel (Formatted template) args s2) (\<lambda>_ s3.
     RUnlock s3)))"



section \<open>Sink adapters\<close>

record ZapLogWriter =
  level :: string

definition NewZapLogWriter :: "string \<Rightarrow> ZapLogWriter option" where
  "NewZapLogWriter lvl = Some \<lparr>level = lvl\<rparr>"

text \<open>
  \<^verbatim>\<open>ZapLogWriter.Write\<close>. A byte buffer and a Go string are both byte sequences, so
  \<^verbatim>\<open>string(b)\<close> is the buffer itself. The switch compares the label with each case's
  strings in order; the read lock is released only on the path that returns.
\<close>

definition ZapLogWriter_Write ::
  "ZapLogWriter option \<Rightarrow> string \<Rightarrow> state \<Rightarrow> (int \<times> go_error option) outcome" where
  "ZapLogWriter_Write z b s =
     andThen (RLock s) (\<lambda>_ s1.
       (case z of
          None \<Rightarrow> Panics NilDereference (emitted s1)
        | Some w \<Rightarrow>
            let call = (\<lambda>lvl.
                  andThen (sugarLogger_of (defaultZapLogger s1) s1) (\<lambda>sl.
                    SugaredLogger_log sl lvl Plain [VString b]))
            in andThen
                 (if level w = ''debug'' \<or> level w = ''DEBUG'' then call DebugLevel
                  else if level w = ''info'' \<or> level w = ''INFO'' \<or> level w = []
                    then call InfoLevel
                  else if level w = ''warn'' \<or> level w = ''WARN'' then call WarnLevel
                  else if level w = ''error'' \<or> level w = ''ERROR'' then call ErrorLevel
                  else if level w = ''panic'' \<or> level w = ''PANIC'' then call PanicLevel
                  else if level w = ''fatal'' \<or> level w = ''FATAL'' then call FatalLevel
                  else call InfoLevel)
                 (\<lambda>_ s2.
                    andThen (RUnlock s2) (\<lambda>_ s3.
                      Returns (int (length b), None) s3))))"

datatype NullWriter = NullWriter

definition NullWriter_Write ::
  "NullWriter option \<Rightarrow> string \<Rightarrow> state \<Rightarrow> (int \<times> go_error option) outcome" where
  "NullWriter_Write n b s = Returns (int (length b), None) s"

section \<open>Observing outcomes\<close>

definition returned_value :: "'a outcome \<Rightarrow> 'a option" where
  "returned_value m = (case m of Returns a s \<Rightarrow> Some a | _ \<Rightarrow> None)"

definition final_state :: "'a outcome \<Rightarrow> state option" where
  "final_state m = (case m of Returns a s \<Rightarrow> Some s | _ \<Rightarrow> None)"

definition panicked :: "'a outcome \<Rightarrow> bool" where
  "panicked m = (case m of Panics v tr \<Rightarrow> True | _ \<Rightarrow> False)"

section \<open>The process after startup\<close>

text \<open>
  The Go runtime runs the package's \<^verbatim>\<open>init\<close> once, before any code outside the
  package can call into it. The process starts in the state \<^verbatim>\<open>init\<close> leaves.
\<close>

definition process_start :: state where
  "process_start = (case init zero_state of Returns u s \<Rightarrow> s | _ \<Rightarrow> zero_state)"

text \<open>The package's level-named emission functions, one constructor per exported name.\<close>

datatype entry_point =
  EP_Debug | EP_Debugf | EP_Info | EP_Infof | EP_Warn | EP_Warnf
| EP_Fatal | EP_Fatalf | EP_Error | EP_Errorf | EP_DPanic | EP_DPanicf

text \<open>A plain entry point takes no template; the argument is ignored for it.\<close>

fun global_fn :: "entry_point \<Rightarrow> string \<Rightarrow> go_value list \<Rightarrow> state \<Rightarrow> unit outcome" where
  "global_fn EP_Debug template = Debug"
| "global_fn EP_Debugf template = Debugf template"
| "global_fn EP_Info template = Info"
| "global_fn EP_Infof template = Infof template"
| "global_fn EP_Warn template = Warn"
| "global_fn EP_Warnf template = Warnf template"
| "global_fn EP_Fatal template = Fatal"
| "global_fn EP_Fatalf template = Fatalf template"
| "global_fn EP_Error template = Error"
| "global_fn EP_Errorf template = Errorf template"
| "global_fn EP_DPanic template = DPanic"
| "global_fn EP_DPanicf template = DPanicf template"

fun method_fn ::
  "entry_point \<Rightarrow> ZapLogger option \<Rightarrow> string \<Rightarrow> go_value list \<Rightarrow> state \<Rightarrow> unit outcome" where
  "method_fn EP_Debug z template = ZapLogger_Debug z"
| "method_fn EP_Debugf z template = ZapLogger_Debugf z template"
| "method_fn EP_Info z template = ZapLogger_Info z"
| "method_fn EP_Infof z template = ZapLogger_Infof z template"
| "method_fn EP_Warn z template = ZapLogger_Warn z"
| "method_fn EP_Warnf z template = ZapLogger_Warnf z template"
| "method_fn EP_Fatal z template = ZapLogger_Fatal z"
| "method_fn EP_Fatalf z template = ZapLogger_Fatalf z template"
| "method_fn EP_Error z template = ZapLogger_Error z"
| "method_fn EP_Errorf z template = ZapLogger_Errorf z template"
| "method_fn EP_DPanic z template = ZapLogger_DPanic z"
| "method_fn EP_DPanicf z template = ZapLogger_DPanicf z template"

fun entry_level :: "entry_point \<Rightarrow> Level" where
  "entry_level EP_Debug = DebugLevel"
| "entry_level EP_Debugf = DebugLevel"
| "entry_level EP_Info = InfoLevel"
| "entry_level EP_Infof = InfoLevel"
| "entry_level EP_Warn = WarnLevel"
| "entry_level EP_Warnf = WarnLevel"
| "entry_level EP_Fatal = FatalLevel"
| "entry_level EP_Fatalf = FatalLevel"
| "entry_level EP_Error = ErrorLevel"
| "entry_level EP_Errorf = ErrorLevel"
| "entry_level EP_DPanic = DPanicLevel"
| "entry_level EP_DPanicf = DPanicLevel"

fun entry_formatted :: "entry_point \<Rightarrow> bool" where
  "entry_formatted EP_Debugf = True"
| "entry_formatted EP_Infof = True"
| "entry_formatted EP_Warnf = True"
| "entry_formatted EP_Fatalf = True"
| "entry_formatted EP_Errorf = True"
| "entry_formatted EP_DPanicf = True"
| "entry_formatted _ = False"

definition entry_form :: "entry_point \<Rightarrow> string \<Rightarrow> call_form" where
  "entry_form ep template = (if entry_formatted ep then Formatted template else Plain)"

text \<open>
  What code outside the package can do to the state: call an exported function or
  method, or allocate and assign configuration structs of its own.
\<close>

datatype api_call =
  Call_NewZapLogger "nat option" LevelEnabler
| Call_InitDefaultLogger "nat option" LevelEnabler
| Call_global entry_point string "go_value list"
| Call_method entry_point "ZapLogger option" string "go_value list"
| Call_Write "ZapLogWriter option" string
| Call_NullWrite "NullWriter option" string
| Client_new LogConfig
| Client_assign nat LogConfig

fun run :: "api_call \<Rightarrow> state \<Rightarrow> state option" where
  "run (Call_NewZapLogger cfg logLevel) s = final_state (NewZapLogger cfg logLevel s)"
| "run (Call_InitDefaultLogger cfg logLevel) s = final_state (InitDefaultLogger cfg logLevel s)"
| "run (Call_global ep template args) s = final_state (global_fn ep template args s)"
| "run (Call_method ep z template args) s = final_state (method_fn ep z template args s)"
| "run (Call_Write w b) s = final_state (ZapLogWriter_Write w b s)"
| "run (Call_NullWrite n b) s = final_state (NullWriter_Write n b s)"
| "run (Client_new c) s = Some (s\<lparr>heap := heap s @ [c]\<rparr>)"
| "run (Client_assign a c) s = Some (s\<lparr>heap := (heap s)[a := c]\<rparr>)"

text \<open>A sequence of calls, each made after the previous one returned.\<close>

fun run_all :: "api_call list \<Rightarrow> state \<Rightarrow> state option" where
  "run_all [] s = Some s"
| "run_all (c # cs) s = (case run c s of None \<Rightarrow> None | Some s' \<Rightarrow> run_all cs s')"

text \<open>
  The engine of the handle in the global slot, when the slot holds a handle whose
  two engine fields are set and agree.
\<close>

definition current_engine :: "state \<Rightarrow> zap_Logger option" where
  "current_engine s =
     (case defaultZapLogger s of
        None \<Rightarrow> None
      | Some zl \<Rightarrow>
          (case sugarLogger zl of
             None \<Rightarrow> None
           | Some (Sugar base) \<Rightarrow> if zapLogger zl = Some base then Some base else None))"

definition lock_free :: "state \<Rightarrow> bool" where
  "lock_free s = (readerCount (resetLock s) = 0 \<and> \<not> writerHeld (resetLock s))"

section \<open>Auxiliary notions for the proofs\<close>

text \<open>
  The struct \<^verbatim>\<open>NewZapLogger\<close> leaves behind after its three threshold checks, the
  handle it builds around a resolved sink, and the outcome of its one or two
  resolution attempts, each written as a closed form.
\<close>

definition with_defaults :: "LogConfig \<Rightarrow> LogConfig" where
  "with_defaults c =
     \<lparr>FilenameOrIoWriter = FilenameOrIoWriter c,
      FileMaxSize = (if FileMaxSize c \<le> 0 then 100 else FileMaxSize c),
      FileMaxBackup = (if FileMaxBackup c \<le> 0 then 3 else FileMaxBackup c),
      FileMaxAge = (if FileMaxAge c \<le> 0 then 30 else FileMaxAge c),
      FileCompress = FileCompress c\<rparr>"

definition handle_for :: "nat option \<Rightarrow> io_Writer \<Rightarrow> LevelEnabler \<Rightarrow> ZapLogger" where
  "handle_for cfg w logLevel =
     (let base = \<lparr>core = \<lparr>enc = getEncoder, out = AddSync w, enab = logLevel\<rparr>,
                  addCaller = True, callerSkip = 1, development = False\<rparr>
      in \<lparr>sugarLogger = Some (Sugar base), zapLogger = Some base, logWriter = Some w,
          config = cfg\<rparr>)"

definition resolved :: "LogConfig \<Rightarrow> io_Writer \<times> LogConfig" where
  "resolved c =
     (case getWriter (with_defaults c) of
        Inr w \<Rightarrow> (w, with_defaults c)
      | Inl e \<Rightarrow> (os_Stdout, (with_defaults c)\<lparr>FilenameOrIoWriter := VWriter os_Stdout\<rparr>))"

text \<open>The severity the switch of \<^verbatim>\<open>ZapLogWriter.Write\<close> selects for a label.\<close>

definition label_level :: "string \<Rightarrow> Level" where
  "label_level l =
     (if l = ''debug'' \<or> l = ''DEBUG'' then DebugLevel
      else if l = ''info'' \<or> l = ''INFO'' \<or> l = [] then InfoLevel
      else if l = ''warn'' \<or> l = ''WARN'' then WarnLevel
      else if l = ''error'' \<or> l = ''ERROR'' then ErrorLevel
      else if l = ''panic'' \<or> l = ''PANIC'' then PanicLevel
      else if l = ''fatal'' \<or> l = ''FATAL'' then FatalLevel
      else InfoLevel)"

text \<open>
  The condition every state after startup satisfies: the slot holds a handle with a
  production engine, and the lock is free.
\<close>

definition ready :: "state \<Rightarrow> bool" where
  "ready s =
     ((case current_engine s of None \<Rightarrow> False | Some base \<Rightarrow> \<not> development base) \<and> lock_free s)"

text \<open>
  The strings the cases of the switch in \<^verbatim>\<open>ZapLogWriter.Write\<close> name; every other
  label reaches its \<^verbatim>\<open>default\<close> branch.
\<close>

definition case_labels :: "string list" where
  "case_labels =
     [''debug'', ''DEBUG'', ''info'', ''INFO'', [], ''warn'', ''WARN'', ''error'', ''ERROR'',
      ''panic'', ''PANIC'', ''fatal'', ''FATAL'']"

text \<open>
  What had been handed to logging engines when a call ended, if it ended.
\<close>

definition emitted_by :: "'a outcome \<Rightarrow> emission list option" where
  "emitted_by m =
     (case m of
        Returns a s \<Rightarrow> Some (emitted s)
      | Panics v tr \<Rightarrow> Some tr
      | Exits tr \<Rightarrow> Some tr
      | Blocks \<Rightarrow> None)"

text \<open>
  The six severities the interface description lists for emission entry points.
\<close>

definition emission_levels :: "Level list" where
  "emission_levels = [DebugLevel, InfoLevel, WarnLevel, ErrorLevel, FatalLevel, DPanicLevel]"

text \<open>An outcome with the lock of its final state replaced.\<close>

definition with_lock :: "RWMutex \<Rightarrow> 'a outcome \<Rightarrow> 'a outcome" where
  "with_lock l m =
     (case m of
        Returns a s \<Rightarrow> Returns a (s\<lparr>resetLock := l\<rparr>)
      | Panics v tr \<Rightarrow> Panics v tr
      | Exits tr \<Rightarrow> Exits tr
      | Blocks \<Rightarrow> Blocks)"

section \<open>Facts about the operations\<close>


lemma zap_New_fields:
  "zap_New c [AddCaller, AddCallerSkip 1] =
     \<lparr>core = c, addCaller = True, callerSkip = 1, development = False\<rparr>"
  by (simp add: zap_New_def)

lemma getWriter_Stdout:
  "getWriter (c\<lparr>FilenameOrIoWriter := VWriter os_Stdout\<rparr>) = Inr os_Stdout"
  by simp

lemma NewZapLogger_nil:
  "load cfg s = None \<Longrightarrow> NewZapLogger cfg logLevel s = Panics NilDereference (emitted s)"
  by (simp add: NewZapLogger_def)

lemma NewZapLogger_ok:
  assumes "load cfg s = Some c"
  shows "NewZapLogger cfg logLevel s =
           (case getWriter (with_defaults c) of
              Inr w \<Rightarrow> Returns (handle_for cfg w logLevel) (store cfg (with_defaults c) s)
            | Inl e \<Rightarrow>
                Returns (handle_for cfg os_Stdout logLevel)
                  (store cfg ((with_defaults c)\<lparr>FilenameOrIoWriter := VWriter os_Stdout\<rparr>) s))"
  using assms
  by (cases c)
    (simp add: NewZapLogger_def with_defaults_def handle_for_def zap_New_fields NewCore_def
      andThen_def Let_def split: go_value.splits)

lemma load_store_frame [simp]:
  "defaultZapLogger (store cfg c s) = defaultZapLogger s"
  "resetLock (store cfg c s) = resetLock s"
  "emitted (store cfg c s) = emitted s"
  "recorded (store cfg c s) = recorded s"
  by (simp_all add: store_def split: option.splits)

lemma NewZapLogger_resolved:
  assumes "load cfg s = Some c"
  shows "NewZapLogger cfg logLevel s =
           Returns (handle_for cfg (fst (resolved c)) logLevel) (store cfg (snd (resolved c)) s)"
  using NewZapLogger_ok [OF assms, of logLevel]
  by (simp add: resolved_def split: sum.splits)

lemma load_lock [simp]: "load cfg (s\<lparr>resetLock := l\<rparr>) = load cfg s"
  by (cases cfg) (simp_all add: load_def)

lemma store_lock: "store cfg c (s\<lparr>resetLock := l\<rparr>) = (store cfg c s)\<lparr>resetLock := l\<rparr>"
  by (simp add: store_def split: option.splits)

lemma load_store_same:
  assumes "load cfg s = Some c"
  shows "load cfg (store cfg c' s) = Some c'"
  using assms by (cases cfg) (simp_all add: load_def store_def split: if_splits)

lemma isl_getWriter_defaults: "isl (getWriter (with_defaults c)) = isl (getWriter c)"
  by (cases "FilenameOrIoWriter c") (simp_all add: with_defaults_def)

lemma InitDefaultLogger_free:
  assumes "lock_free s"
  shows "InitDefaultLogger cfg logLevel s =
     (case load cfg s of
        None \<Rightarrow> Panics NilDereference (emitted s)
      | Some c \<Rightarrow>
          Returns ()
            ((store cfg (snd (resolved c)) s)
               \<lparr>defaultZapLogger := Some (handle_for cfg (fst (resolved c)) logLevel)\<rparr>))"
proof (cases "load cfg s")
  case None
  with assms show ?thesis
    by (simp add: InitDefaultLogger_def Lock_def lock_free_def andThen_def NewZapLogger_nil)
next
  case (Some c)
  from assms have lk: "readerCount (resetLock s) = 0" "\<not> writerHeld (resetLock s)"
    by (simp_all add: lock_free_def)
  have "(resetLock s)\<lparr>writerHeld := False\<rparr> = resetLock s"
    using lk by simp
  then show ?thesis
    using Some lk
    by (simp add: InitDefaultLogger_def Lock_def andThen_def NewZapLogger_resolved Unlock_def
        store_lock)
qed


lemma current_engineD:
  assumes "current_engine s = Some base"
  shows "\<exists>zl. defaultZapLogger s = Some zl \<and> sugarLogger zl = Some (Sugar base)
            \<and> zapLogger zl = Some base"
  using assms
  by (auto simp: current_engine_def split: option.splits SugaredLogger.splits if_splits)

lemma current_engine_handle_for [simp]:
  "current_engine (s\<lparr>defaultZapLogger := Some (handle_for cfg w logLevel)\<rparr>) =
     Some \<lparr>core = \<lparr>enc = getEncoder, out = AddSync w, enab = logLevel\<rparr>,
           addCaller = True, callerSkip = 1, development = False\<rparr>"
  by (simp add: current_engine_def handle_for_def Let_def)

lemma lock_free_slot [simp]: "lock_free (s\<lparr>defaultZapLogger := z\<rparr>) = lock_free s"
  by (simp add: lock_free_def)

lemma lock_free_store [simp]: "lock_free (store cfg c s) = lock_free s"
  by (simp add: lock_free_def)

lemma frame_simps [simp]:
  "current_engine (s\<lparr>emitted := es\<rparr>) = current_engine s"
  "lock_free (s\<lparr>emitted := es\<rparr>) = lock_free s"
  "current_engine (s\<lparr>recorded := es\<rparr>) = current_engine s"
  "lock_free (s\<lparr>recorded := es\<rparr>) = lock_free s"
  "current_engine (s\<lparr>heap := h\<rparr>) = current_engine s"
  "lock_free (s\<lparr>heap := h\<rparr>) = lock_free s"
  "current_engine (s\<lparr>resetLock := l\<rparr>) = current_engine s"
  by (simp_all add: current_engine_def lock_free_def)

lemma ready_frame [simp]:
  "ready (s\<lparr>emitted := es\<rparr>) = ready s"
  "ready (s\<lparr>recorded := es\<rparr>) = ready s"
  "ready (s\<lparr>heap := h\<rparr>) = ready s"
  by (simp_all add: ready_def)

lemma ready_store [simp]: "ready (store cfg c s) = ready s"
  by (simp add: store_def split: option.splits)

text \<open>The engine call.\<close>

lemma log_closed:
  "SugaredLogger_log (Some (Sugar base)) lvl f args s =
     (let e = \<lparr>engine = base, severity = lvl, form = f, arguments = args\<rparr>;
          tr = emitted s @ [e]
      in case Enabled (enab (core base)) lvl of
           None \<Rightarrow> Panics NilDereference tr
         | Some admitted \<Rightarrow>
             if admitted \<and> \<not> Write_returns (out (core base)) then Panics SinkPanic tr
             else if lvl = FatalLevel then Exits tr
             else if lvl = PanicLevel \<or> lvl = DPanicLevel \<and> development base
               then Panics (EnginePanic e) tr
             else Returns ()
               (s\<lparr>emitted := tr,
                  recorded := (if admitted then recorded s @ [e] else recorded s)\<rparr>))"
  by (cases lvl; cases "Enabled (enab (core base)) lvl")
    (auto simp: SugaredLogger_log_def andThen_def Let_def split: bool.splits)

lemma log_emitted_by:
  "emitted_by (SugaredLogger_log (Some (Sugar base)) lvl f args s) =
     Some (emitted s @ [\<lparr>engine = base, severity = lvl, form = f, arguments = args\<rparr>])"
  by (simp add: log_closed emitted_by_def Let_def split: option.splits)

lemma log_returns:
  assumes "SugaredLogger_log sl lvl f args s = Returns u s'"
  shows "heap s' = heap s \<and> defaultZapLogger s' = defaultZapLogger s \<and>
         resetLock s' = resetLock s"
proof (cases sl)
  case None
  with assms show ?thesis by (simp add: SugaredLogger_log_def)
next
  case (Some x)
  then obtain base where "sl = Some (Sugar base)" by (cases x) simp
  with assms show ?thesis
    by (auto simp: log_closed Let_def split: option.splits if_splits)
qed

lemma log_never_returns:
  assumes "lvl = PanicLevel \<or> lvl = FatalLevel"
  shows "returned_value (SugaredLogger_log sl lvl f args s) = None"
proof (cases sl)
  case None
  then show ?thesis by (simp add: SugaredLogger_log_def returned_value_def)
next
  case (Some x)
  then obtain base where "sl = Some (Sugar base)" by (cases x) simp
  with assms show ?thesis
    by (auto simp: log_closed returned_value_def Let_def split: option.splits)
qed

lemma log_lock:
  "SugaredLogger_log sl lvl f args (s\<lparr>resetLock := l\<rparr>) =
     with_lock l (SugaredLogger_log sl lvl f args s)"
proof (cases sl)
  case None
  then show ?thesis by (simp add: SugaredLogger_log_def with_lock_def)
next
  case (Some x)
  then obtain base where "sl = Some (Sugar base)" by (cases x) simp
  then show ?thesis
    by (simp add: log_closed with_lock_def Let_def split: option.splits)
qed

lemma locked_call:
  assumes "lock_free s"
  shows "andThen (RLock s) (\<lambda>_ s1.
           andThen (sugarLogger_of (defaultZapLogger s1) s1) (\<lambda>sl s2.
           andThen (SugaredLogger_log sl lvl f args s2) (\<lambda>_ s3. RUnlock s3))) =
         andThen (sugarLogger_of (defaultZapLogger s) s) (\<lambda>sl.
           SugaredLogger_log sl lvl f args)"
proof -
  from assms have lk: "readerCount (resetLock s) = 0" "\<not> writerHeld (resetLock s)"
    by (simp_all add: lock_free_def)
  let ?l = "(resetLock s)\<lparr>readerCount := Suc 0\<rparr>"
  show ?thesis
  proof (cases "defaultZapLogger s")
    case None
    with lk show ?thesis
      by (simp add: RLock_def sugarLogger_of_def andThen_def)
  next
    case (Some zl)
    let ?m = "SugaredLogger_log (sugarLogger zl) lvl f args s"
    have "andThen (with_lock ?l ?m) (\<lambda>_ s3. RUnlock s3) = ?m"
    proof (cases ?m)
      case (Returns u s')
      then have "resetLock s' = resetLock s"
        using log_returns by blast
      with lk have "s'\<lparr>resetLock := (resetLock s)\<lparr>readerCount := 0\<rparr>\<rparr> = s'"
        by simp
      with Returns show ?thesis
        by (simp add: with_lock_def andThen_def RUnlock_def)
    qed (simp_all add: with_lock_def andThen_def)
    with Some lk show ?thesis
      by (simp add: RLock_def sugarLogger_of_def andThen_def log_lock)
  qed
qed

lemmas global_defs =
  Debug_def Debugf_def Info_def Infof_def Warn_def Warnf_def Fatal_def Fatalf_def
  Error_def Errorf_def DPanic_def DPanicf_def

lemmas method_defs =
  ZapLogger_Debug_def ZapLogger_Debugf_def ZapLogger_Info_def ZapLogger_Infof_def
  ZapLogger_Warn_def ZapLogger_Warnf_def ZapLogger_Fatal_def ZapLogger_Fatalf_def
  ZapLogger_Error_def ZapLogger_Errorf_def ZapLogger_DPanic_def ZapLogger_DPanicf_def

lemma global_fn_unfold:
  "global_fn ep template args s =
     andThen (RLock s) (\<lambda>_ s1.
       andThen (sugarLogger_of (defaultZapLogger s1) s1) (\<lambda>sl s2.
       andThen (SugaredLogger_log sl (entry_level ep) (entry_form ep template) args s2)
         (\<lambda>_ s3. RUnlock s3)))"
  by (cases ep) (simp_all add: global_defs entry_form_def)

lemma method_fn_unfold:
  "method_fn ep z template args s =
     andThen (sugarLogger_of z s) (\<lambda>sl.
       SugaredLogger_log sl (entry_level ep) (entry_form ep template) args)"
  by (cases ep) (simp_all add: method_defs entry_form_def)

lemma global_fn_method_fn:
  assumes "lock_free s"
  shows "global_fn ep template args s = method_fn ep (defaultZapLogger s) template args s"
  by (simp add: global_fn_unfold method_fn_unfold locked_call [OF assms])

lemma method_fn_returns:
  assumes "method_fn ep z template args s = Returns u s'"
  shows "heap s' = heap s \<and> defaultZapLogger s' = defaultZapLogger s \<and>
         resetLock s' = resetLock s"
  using assms
  by (auto simp: method_fn_unfold sugarLogger_of_def andThen_def
      split: option.splits dest: log_returns)

lemma Write_unfold:
  "ZapLogWriter_Write (NewZapLogWriter l) b s =
     andThen (RLock s) (\<lambda>_ s1.
       andThen
         (andThen (sugarLogger_of (defaultZapLogger s1) s1) (\<lambda>sl.
            SugaredLogger_log sl (label_level l) Plain [VString b]))
         (\<lambda>_ s2. andThen (RUnlock s2) (\<lambda>_ s3. Returns (int (length b), None) s3)))"
  unfolding ZapLogWriter_Write_def NewZapLogWriter_def Let_def label_level_def
  by simp

lemma andThen_assoc:
  "andThen (andThen m f) g = andThen m (\<lambda>a s. andThen (f a s) g)"
  by (cases m) (simp_all add: andThen_def)

lemma Write_free:
  assumes "lock_free s"
  shows "ZapLogWriter_Write (NewZapLogWriter l) b s =
     andThen
       (andThen (sugarLogger_of (defaultZapLogger s) s) (\<lambda>sl.
          SugaredLogger_log sl (label_level l) Plain [VString b]))
       (\<lambda>_ s'. Returns (int (length b), None) s')"
proof -
  have "ZapLogWriter_Write (NewZapLogWriter l) b s =
      andThen
        (andThen (RLock s) (\<lambda>_ s1.
           andThen (sugarLogger_of (defaultZapLogger s1) s1) (\<lambda>sl s2.
           andThen (SugaredLogger_log sl (label_level l) Plain [VString b] s2)
             (\<lambda>_ s3. RUnlock s3))))
        (\<lambda>_ s'. Returns (int (length b), None) s')"
    by (simp add: Write_unfold andThen_assoc)
  then show ?thesis
    by (simp only: locked_call [OF assms])
qed


lemma ready_same:
  assumes "defaultZapLogger s' = defaultZapLogger s" and "resetLock s' = resetLock s"
  shows "ready s' = ready s"
  using assms by (simp add: ready_def current_engine_def lock_free_def)

lemma Write_returns_frame:
  assumes "lock_free s" and "ZapLogWriter_Write (NewZapLogWriter l) b s = Returns r s'"
  shows "r = (int (length b), None) \<and> defaultZapLogger s' = defaultZapLogger s \<and>
         resetLock s' = resetLock s"
  using assms(2) unfolding Write_free [OF assms(1)]
  by (auto simp: andThen_def sugarLogger_of_def split: option.splits outcome.splits
      dest: log_returns)

lemma run_ready:
  assumes "ready s" and "run c s = Some s'"
  shows "ready s'"
proof -
  from assms(1) have lf: "lock_free s" by (simp add: ready_def)
  show ?thesis
  proof (cases c)
    case (Call_NewZapLogger cfg logLevel)
    with assms show ?thesis
      by (cases "load cfg s")
        (auto simp: final_state_def NewZapLogger_nil NewZapLogger_resolved)
  next
    case (Call_InitDefaultLogger cfg logLevel)
    with assms lf show ?thesis
      by (cases "load cfg s")
        (auto simp: final_state_def InitDefaultLogger_free ready_def)
  next
    case (Call_global ep template args)
    with assms have "\<exists>u. method_fn ep (defaultZapLogger s) template args s = Returns u s'"
      by (auto simp: final_state_def global_fn_method_fn [OF lf] split: outcome.splits)
    then show ?thesis
      using assms(1) ready_same method_fn_returns by blast
  next
    case (Call_method ep z template args)
    with assms have "\<exists>u. method_fn ep z template args s = Returns u s'"
      by (auto simp: final_state_def split: outcome.splits)
    then show ?thesis
      using assms(1) ready_same method_fn_returns by blast
  next
    case (Call_Write w b)
    show ?thesis
    proof (cases w)
      case None
      with Call_Write assms lf show ?thesis
        by (simp add: final_state_def ZapLogWriter_Write_def RLock_def lock_free_def andThen_def)
    next
      case (Some r)
      then have "w = NewZapLogWriter (level r)"
        by (simp add: NewZapLogWriter_def)
      with Call_Write assms have
        "\<exists>u. ZapLogWriter_Write (NewZapLogWriter (level r)) b s = Returns u s'"
        by (auto simp: final_state_def split: outcome.splits)
      then show ?thesis
        using assms(1) ready_same Write_returns_frame [OF lf] by blast
    qed
  next
    case (Call_NullWrite n b)
    with assms show ?thesis
      by (simp add: final_state_def NullWriter_Write_def)
  next
    case (Client_new x)
    with assms show ?thesis by auto
  next
    case (Client_assign a x)
    with assms show ?thesis by auto
  qed
qed

lemma run_all_ready:
  "ready s \<Longrightarrow> run_all cs s = Some s' \<Longrightarrow> ready s'"
proof (induction cs arbitrary: s)
  case Nil
  then show ?case by simp
next
  case (Cons c cs)
  then show ?case
    by (auto split: option.splits dest: run_ready)
qed

lemma process_start_eq:
  "process_start =
     \<lparr>heap = [\<lparr>FilenameOrIoWriter = VWriter os_Stdout, FileMaxSize = 100,
               FileMaxBackup = 3, FileMaxAge = 30, FileCompress = False\<rparr>],
      defaultZapLogger = Some (handle_for (Some 0) os_Stdout (LevelOf DebugLevel)),
      resetLock = \<lparr>readerCount = 0, writerHeld = False\<rparr>, emitted = [], recorded = []\<rparr>"
  by (simp add: process_start_def init_def InitDefaultLogger_def andThen_def Lock_def Unlock_def
      NewZapLogger_def load_def store_def zero_state_def zero_LogConfig_def Let_def
      handle_for_def zap_New_fields NewCore_def)

lemma process_start_ready: "ready process_start"
  by (simp add: process_start_eq ready_def lock_free_def current_engine_def handle_for_def Let_def)

lemma after_start_ready:
  assumes "run_all cs process_start = Some s"
  shows "ready s"
  using process_start_ready assms by (rule run_all_ready)

lemma ready_engine:
  assumes "ready s"
  shows "\<exists>base. current_engine s = Some base \<and> \<not> development base"
  using assms by (auto simp: ready_def split: option.splits)

lemma process_start_engine:
  "current_engine process_start =
     Some \<lparr>core = \<lparr>enc = getEncoder, out = AddSync os_Stdout, enab = LevelOf DebugLevel\<rparr>,
           addCaller = True, callerSkip = 1, development = False\<rparr>"
  by (simp add: process_start_eq current_engine_def handle_for_def Let_def)

lemma process_start_emitted: "emitted process_start = []"
  by (simp add: process_start_eq)

lemma process_start_recorded: "recorded process_start = []"
  by (simp add: process_start_eq)

lemma label_level_simps:
  "label_level ''warn'' = WarnLevel" "label_level ''info'' = InfoLevel"
  "label_level [] = InfoLevel" "label_level ''fatal'' = FatalLevel"
  "label_level ''panic'' = PanicLevel" "label_level ''error'' = ErrorLevel"
  "label_level ''PANIC'' = PanicLevel"
  by (simp_all add: label_level_def)

lemma label_level_unrecognised:
  assumes "l \<notin> set case_labels"
  shows "label_level l = InfoLevel"
  using assms by (simp add: case_labels_def label_level_def)

lemma label_level_not_DPanic: "label_level l \<noteq> DPanicLevel"
  by (simp add: label_level_def)

lemma Write_by_level:
  assumes "label_level l = label_level l'"
  shows "ZapLogWriter_Write (NewZapLogWriter l) b s = ZapLogWriter_Write (NewZapLogWriter l') b s"
  using assms by (simp add: Write_unfold)

lemma Write_result:
  assumes "ZapLogWriter_Write z b s = Returns r s'"
  shows "r = (int (length b), None)"
  using assms
  by (auto simp: ZapLogWriter_Write_def andThen_def Let_def
      split: outcome.splits option.splits if_splits)

lemma Write_never_returns:
  assumes "label_level l = PanicLevel \<or> label_level l = FatalLevel"
  shows "returned_value (ZapLogWriter_Write (NewZapLogWriter l) b s) = None"
proof -
  have inner: "returned_value
      (andThen (sugarLogger_of z s1)
         (\<lambda>sl. SugaredLogger_log sl (label_level l) Plain [VString b])) = None" for z s1
    using log_never_returns [OF assms]
    by (cases z) (simp_all add: sugarLogger_of_def andThen_def returned_value_def)
  have "returned_value (andThen m g) = None" if "returned_value m = None"
    for m :: "unit outcome" and g :: "unit \<Rightarrow> state \<Rightarrow> (int \<times> go_error option) outcome"
    using that by (cases m) (simp_all add: returned_value_def andThen_def)
  with inner show ?thesis
    by (cases "RLock s") (simp_all add: Write_unfold andThen_def returned_value_def)
qed

lemma Write_sound:
  assumes "ready s" and "current_engine s = Some base"
    and "Enabled (enab (core base)) (label_level l) = Some admitted"
    and "admitted \<longrightarrow> Write_returns (out (core base))"
    and "label_level l \<noteq> PanicLevel" and "label_level l \<noteq> FatalLevel"
  shows "ZapLogWriter_Write (NewZapLogWriter l) b s =
     Returns (int (length b), None)
       (s\<lparr>emitted := emitted s @
            [\<lparr>engine = base, severity = label_level l, form = Plain,
              arguments = [VString b]\<rparr>],
          recorded :=
            (if admitted
             then recorded s @
               [\<lparr>engine = base, severity = label_level l, form = Plain,
                 arguments = [VString b]\<rparr>]
             else recorded s)\<rparr>)"
proof -
  from assms(1) have lf: "lock_free s" and nd: "case current_engine s of None \<Rightarrow> False
      | Some base \<Rightarrow> \<not> development base"
    by (simp_all add: ready_def)
  from assms(2) obtain zl where zl: "defaultZapLogger s = Some zl"
    "sugarLogger zl = Some (Sugar base)"
    using current_engineD by blast
  show ?thesis
    using zl assms(2-6) nd
    by (simp add: Write_free [OF lf] sugarLogger_of_def andThen_def log_closed Let_def
        label_level_not_DPanic)
qed

lemma Write_panics:
  assumes "ready s" and "current_engine s = Some base"
    and "enab (core base) = NilEnabler \<or>
         Enabled (enab (core base)) (label_level l) = Some True \<and>
         \<not> Write_returns (out (core base))"
  shows "panicked (ZapLogWriter_Write (NewZapLogWriter l) b s)"
proof -
  from assms(1) have lf: "lock_free s" by (simp add: ready_def)
  from assms(2) obtain zl where zl: "defaultZapLogger s = Some zl"
    "sugarLogger zl = Some (Sugar base)"
    using current_engineD by blast
  from assms(3) show ?thesis
    using zl
    by (auto simp: Write_free [OF lf] sugarLogger_of_def andThen_def log_closed Let_def
        panicked_def)
qed

lemma Write_emitted_by:
  assumes "ready s" and "current_engine s = Some base"
  shows "emitted_by (ZapLogWriter_Write (NewZapLogWriter l) b s) =
     Some (emitted s @
       [\<lparr>engine = base, severity = label_level l, form = Plain, arguments = [VString b]\<rparr>])"
proof -
  from assms(1) have lf: "lock_free s" by (simp add: ready_def)
  from assms(2) obtain zl where zl: "defaultZapLogger s = Some zl"
    "sugarLogger zl = Some (Sugar base)"
    using current_engineD by blast
  let ?m = "SugaredLogger_log (Some (Sugar base)) (label_level l) Plain [VString b] s"
  have "emitted_by (andThen ?m (\<lambda>_ s'. Returns (int (length b), None) s')) = emitted_by ?m"
    by (cases ?m) (auto simp: andThen_def emitted_by_def log_closed Let_def
        split: option.splits if_splits)
  then show ?thesis
    using zl by (simp add: Write_free [OF lf] sugarLogger_of_def andThen_def log_emitted_by)
qed

lemma entry_point_inj:
  assumes "entry_level ep = entry_level ep'" and "entry_formatted ep = entry_formatted ep'"
  shows "ep = ep'"
  using assms by (cases ep; cases ep') simp_all

lemma entry_point_exists:
  assumes "lvl \<in> set emission_levels"
  shows "\<exists>ep. entry_level ep = lvl \<and> entry_formatted ep = fmt"
proof (cases fmt)
  case True
  have "entry_formatted EP_Debugf" "entry_formatted EP_Infof" "entry_formatted EP_Warnf"
    "entry_formatted EP_Errorf" "entry_formatted EP_Fatalf" "entry_formatted EP_DPanicf"
    by simp_all
  moreover have "entry_level EP_Debugf = DebugLevel" "entry_level EP_Infof = InfoLevel"
    "entry_level EP_Warnf = WarnLevel" "entry_level EP_Errorf = ErrorLevel"
    "entry_level EP_Fatalf = FatalLevel" "entry_level EP_DPanicf = DPanicLevel"
    by simp_all
  ultimately show ?thesis
    using assms True unfolding emission_levels_def by (metis empty_iff empty_set set_ConsD)
next
  case False
  have "\<not> entry_formatted EP_Debug" "\<not> entry_formatted EP_Info" "\<not> entry_formatted EP_Warn"
    "\<not> entry_formatted EP_Error" "\<not> entry_formatted EP_Fatal" "\<not> entry_formatted EP_DPanic"
    by simp_all
  moreover have "entry_level EP_Debug = DebugLevel" "entry_level EP_Info = InfoLevel"
    "entry_level EP_Warn = WarnLevel" "entry_level EP_Error = ErrorLevel"
    "entry_level EP_Fatal = FatalLevel" "entry_level EP_DPanic = DPanicLevel"
    by simp_all
  ultimately show ?thesis
    using assms False unfolding emission_levels_def by (metis empty_iff empty_set set_ConsD)
qed

lemma entry_level_listed: "entry_level ep \<in> set emission_levels"
  by (cases ep) (simp_all add: emission_levels_def)

lemma global_fn_emitted_by:
  assumes "ready s" and "current_engine s = Some base"
  shows "emitted_by (global_fn ep template args s) =
     Some (emitted s @
       [\<lparr>engine = base, severity = entry_level ep, form = entry_form ep template,
         arguments = args\<rparr>])"
proof -
  from assms(1) have lf: "lock_free s" by (simp add: ready_def)
  from assms(2) obtain zl where "defaultZapLogger s = Some zl"
    "sugarLogger zl = Some (Sugar base)"
    using current_engineD by blast
  then show ?thesis
    by (simp add: global_fn_method_fn [OF lf] method_fn_unfold sugarLogger_of_def andThen_def
        log_emitted_by)
qed

section \<open>The claims\<close>

subsection \<open>C1\<close>

text \<open>
  Claim C1. Destination resolution splits three ways on the destination field of the
  configuration. A path string gives a rotating file sink carrying the configuration's
  maximum size, backup count, maximum age and compression flag. A value that already is
  a byte sink is returned as it is. Every other value, the nil interface included,
  gives an error.
\<close>

theorem getWriter_three_way:
  "(\<forall>path. FilenameOrIoWriter c = VString path \<longrightarrow>
      getWriter c =
        Inr (Lumberjack \<lparr>Filename = path, MaxSize = FileMaxSize c,
                         MaxBackups = FileMaxBackup c, MaxAge = FileMaxAge c,
                         Compress = FileCompress c\<rparr>)) \<and>
   (\<forall>w. FilenameOrIoWriter c = VWriter w \<longrightarrow> getWriter c = Inr w) \<and>
   ((\<forall>path. FilenameOrIoWriter c \<noteq> VString path) \<and>
    (\<forall>w. FilenameOrIoWriter c \<noteq> VWriter w) \<longrightarrow>
      getWriter c = Inl (errors_New ''string / io.Writer only''))"
  by (cases "FilenameOrIoWriter c") simp_all

theorem getWriter_three_way_witness:
  "getWriter \<lparr>FilenameOrIoWriter = VString ''app.log'', FileMaxSize = 50, FileMaxBackup = 2,
              FileMaxAge = 7, FileCompress = True\<rparr> =
     Inr (Lumberjack \<lparr>Filename = ''app.log'', MaxSize = 50, MaxBackups = 2, MaxAge = 7,
                      Compress = True\<rparr>) \<and>
   getWriter \<lparr>FilenameOrIoWriter = VWriter (ForeignWriter 7), FileMaxSize = 50,
              FileMaxBackup = 2, FileMaxAge = 7, FileCompress = True\<rparr> =
     Inr (ForeignWriter 7) \<and>
   getWriter \<lparr>FilenameOrIoWriter = VNil, FileMaxSize = 50, FileMaxBackup = 2,
              FileMaxAge = 7, FileCompress = True\<rparr> =
     Inl (errors_New ''string / io.Writer only'') \<and>
   getWriter \<lparr>FilenameOrIoWriter = VOther 42, FileMaxSize = 50, FileMaxBackup = 2,
              FileMaxAge = 7, FileCompress = True\<rparr> =
     Inl (errors_New ''string / io.Writer only'')"
  using
    getWriter_three_way [of "\<lparr>FilenameOrIoWriter = VString ''app.log'', FileMaxSize = 50,
      FileMaxBackup = 2, FileMaxAge = 7, FileCompress = True\<rparr>"]
    getWriter_three_way [of "\<lparr>FilenameOrIoWriter = VWriter (ForeignWriter 7), FileMaxSize = 50,
      FileMaxBackup = 2, FileMaxAge = 7, FileCompress = True\<rparr>"]
    getWriter_three_way [of "\<lparr>FilenameOrIoWriter = VNil, FileMaxSize = 50,
      FileMaxBackup = 2, FileMaxAge = 7, FileCompress = True\<rparr>"]
    getWriter_three_way [of "\<lparr>FilenameOrIoWriter = VOther 42, FileMaxSize = 50,
      FileMaxBackup = 2, FileMaxAge = 7, FileCompress = True\<rparr>"]
  by simp

subsection \<open>C2\<close>

text \<open>
  Claim C2. When the first resolution in \<^verbatim>\<open>NewZapLogger\<close> fails (it runs on the struct
  after the threshold checks, \<^const>\<open>with_defaults\<close>), the destination is replaced by
  standard output and resolution is tried once more. The constructor panics exactly when
  that second attempt fails. The second attempt yields a sink, the constructor returns a
  handle writing to it, and the caller's struct holds standard output as its destination.
\<close>

theorem NewZapLogger_fallback_once:
  assumes "load cfg s = Some c" and "isl (getWriter (with_defaults c))"
  shows "(panicked (NewZapLogger cfg logLevel s) \<longleftrightarrow>
            isl (getWriter ((with_defaults c)\<lparr>FilenameOrIoWriter := VWriter os_Stdout\<rparr>))) \<and>
         (\<exists>w zl s'.
            getWriter ((with_defaults c)\<lparr>FilenameOrIoWriter := VWriter os_Stdout\<rparr>) = Inr w \<and>
            NewZapLogger cfg logLevel s = Returns zl s' \<and>
            logWriter zl = Some w \<and>
            load cfg s' = Some ((with_defaults c)\<lparr>FilenameOrIoWriter := VWriter os_Stdout\<rparr>))"
proof -
  from assms(2) obtain e where "getWriter (with_defaults c) = Inl e"
    by (cases "getWriter (with_defaults c)") simp_all
  then have "NewZapLogger cfg logLevel s =
      Returns (handle_for cfg os_Stdout logLevel)
        (store cfg ((with_defaults c)\<lparr>FilenameOrIoWriter := VWriter os_Stdout\<rparr>) s)"
    using NewZapLogger_ok [OF assms(1), of logLevel] by simp
  then show ?thesis
    using assms(1) by (simp add: panicked_def handle_for_def Let_def load_store_same)
qed

theorem NewZapLogger_fallback_once_witness:
  "panicked (NewZapLogger (Some 0) (LevelOf InfoLevel)
      (zero_state\<lparr>heap := [zero_LogConfig\<lparr>FilenameOrIoWriter := VOther 5\<rparr>]\<rparr>)) = False \<and>
   (\<exists>zl s'. NewZapLogger (Some 0) (LevelOf InfoLevel)
        (zero_state\<lparr>heap := [zero_LogConfig\<lparr>FilenameOrIoWriter := VOther 5\<rparr>]\<rparr>) = Returns zl s' \<and>
      logWriter zl = Some os_Stdout \<and>
      load (Some 0) s' =
        Some \<lparr>FilenameOrIoWriter = VWriter os_Stdout, FileMaxSize = 100,
              FileMaxBackup = 3, FileMaxAge = 30, FileCompress = False\<rparr>)"
  using NewZapLogger_fallback_once [of "Some 0"
      "zero_state\<lparr>heap := [zero_LogConfig\<lparr>FilenameOrIoWriter := VOther 5\<rparr>]\<rparr>"
      "zero_LogConfig\<lparr>FilenameOrIoWriter := VOther 5\<rparr>" "LevelOf InfoLevel"]
  by (auto simp: load_def zero_state_def zero_LogConfig_def with_defaults_def)

subsection \<open>C3\<close>

text \<open>
  Claim C3. For every configuration the constructor is given, it returns, and afterwards
  each threshold field of the struct holds its default (size 100, backups 3, age 30) if
  it was not positive and its old value if it was.
\<close>

theorem NewZapLogger_threshold_defaults:
  assumes "load cfg s = Some c"
  shows "\<exists>zl s' c'.
           NewZapLogger cfg logLevel s = Returns zl s' \<and> load cfg s' = Some c' \<and>
           FileMaxSize c' = (if FileMaxSize c \<le> 0 then 100 else FileMaxSize c) \<and>
           FileMaxBackup c' = (if FileMaxBackup c \<le> 0 then 3 else FileMaxBackup c) \<and>
           FileMaxAge c' = (if FileMaxAge c \<le> 0 then 30 else FileMaxAge c)"
proof -
  have "NewZapLogger cfg logLevel s =
      Returns (handle_for cfg (fst (resolved c)) logLevel) (store cfg (snd (resolved c)) s)"
    by (rule NewZapLogger_resolved [OF assms])
  moreover have "load cfg (store cfg (snd (resolved c)) s) = Some (snd (resolved c))"
    by (rule load_store_same [OF assms])
  moreover have "FileMaxSize (snd (resolved c)) = (if FileMaxSize c \<le> 0 then 100 else FileMaxSize c)"
    "FileMaxBackup (snd (resolved c)) = (if FileMaxBackup c \<le> 0 then 3 else FileMaxBackup c)"
    "FileMaxAge (snd (resolved c)) = (if FileMaxAge c \<le> 0 then 30 else FileMaxAge c)"
    by (simp_all add: resolved_def with_defaults_def split: sum.splits)
  ultimately show ?thesis by blast
qed

theorem NewZapLogger_threshold_defaults_witness:
  "\<exists>zl s' c'.
     NewZapLogger (Some 0) (LevelOf WarnLevel)
       (zero_state\<lparr>heap := [\<lparr>FilenameOrIoWriter = VString ''a.log'', FileMaxSize = - 4,
          FileMaxBackup = 9, FileMaxAge = 0, FileCompress = True\<rparr>]\<rparr>) = Returns zl s' \<and>
     load (Some 0) s' = Some c' \<and>
     FileMaxSize c' = 100 \<and> FileMaxBackup c' = 9 \<and> FileMaxAge c' = 30"
  using NewZapLogger_threshold_defaults [of "Some 0"
      "zero_state\<lparr>heap := [\<lparr>FilenameOrIoWriter = VString ''a.log'', FileMaxSize = - 4,
          FileMaxBackup = 9, FileMaxAge = 0, FileCompress = True\<rparr>]\<rparr>"
      "\<lparr>FilenameOrIoWriter = VString ''a.log'', FileMaxSize = - 4,
          FileMaxBackup = 9, FileMaxAge = 0, FileCompress = True\<rparr>" "LevelOf WarnLevel"]
  by (simp add: load_def zero_state_def)

subsection \<open>C4\<close>



subsection \<open>C5\<close>

text \<open>
  Claim C5 fails as it is stated. At startup, a write through an adapter labelled
  \<^verbatim>\<open>fatal\<close> hands the engine a fatal-severity call and the process exits: the call
  does not return the buffer's length.
\<close>

theorem Write_fatal_counterexample:
  "ZapLogWriter_Write (NewZapLogWriter ''fatal'') ''x'' process_start =
     Exits
       [\<lparr>engine = \<lparr>core = \<lparr>enc = getEncoder, out = AddSync os_Stdout,
                              enab = LevelOf DebugLevel\<rparr>,
                    addCaller = True, callerSkip = 1, development = False\<rparr>,
         severity = FatalLevel, form = Plain, arguments = [VString ''x'']\<rparr>] \<and>
   returned_value (ZapLogWriter_Write (NewZapLogWriter ''fatal'') ''x'' process_start) \<noteq>
     Some (int (length ''x''), None)"
proof -
  have lf: "lock_free process_start"
    using process_start_ready by (simp add: ready_def)
  have "defaultZapLogger process_start =
      Some (handle_for (Some 0) os_Stdout (LevelOf DebugLevel))"
    by (simp add: process_start_eq)
  then show ?thesis
    by (simp add: Write_free [OF lf] sugarLogger_of_def andThen_def handle_for_def Let_def
        log_closed label_level_simps returned_value_def process_start_emitted)
qed

text \<open>
  Claim C5, amended. In every state and for every adapter, a write that returns
  returns the length of the buffer and no error. With the label \<^verbatim>\<open>panic\<close>, \<^verbatim>\<open>PANIC\<close>,
  \<^verbatim>\<open>fatal\<close> or \<^verbatim>\<open>FATAL\<close> the write never returns. With every other label it does
  return, in every state reached after startup by calls that returned in which the
  current handle's threshold is not nil and its sink's \<^verbatim>\<open>Write\<close> returns. In such a
  state the write panics, whatever the label, if the threshold is nil, or if it admits
  the label's severity (\<^const>\<open>label_level\<close>) and the sink's \<^verbatim>\<open>Write\<close> panics.
\<close>

theorem Write_returns_unless_panic_or_fatal:
  "(\<forall>r s'. ZapLogWriter_Write z b s0 = Returns r s' \<longrightarrow> r = (int (length b), None)) \<and>
   (l \<in> {''panic'', ''PANIC'', ''fatal'', ''FATAL''} \<longrightarrow>
      returned_value (ZapLogWriter_Write (NewZapLogWriter l) b s0) = None) \<and>
   (run_all cs process_start = Some s \<longrightarrow>
      (\<forall>base. current_engine s = Some base \<longrightarrow>
         enab (core base) \<noteq> NilEnabler \<longrightarrow>
         Write_returns (out (core base)) \<longrightarrow>
         l \<notin> {''panic'', ''PANIC'', ''fatal'', ''FATAL''} \<longrightarrow>
           returned_value (ZapLogWriter_Write (NewZapLogWriter l) b s) =
             Some (int (length b), None)) \<and>
      (\<forall>base. current_engine s = Some base \<longrightarrow>
         enab (core base) = NilEnabler \<or>
         Enabled (enab (core base)) (label_level l) = Some True \<and>
         \<not> Write_returns (out (core base)) \<longrightarrow>
           panicked (ZapLogWriter_Write (NewZapLogWriter l) b s)))"
proof (intro conjI impI allI)
  fix r s'
  assume "ZapLogWriter_Write z b s0 = Returns r s'"
  then show "r = (int (length b), None)"
    by (rule Write_result)
next
  assume "l \<in> {''panic'', ''PANIC'', ''fatal'', ''FATAL''}"
  then have "label_level l = PanicLevel \<or> label_level l = FatalLevel"
    by (auto simp: label_level_def)
  then show "returned_value (ZapLogWriter_Write (NewZapLogWriter l) b s0) = None"
    by (rule Write_never_returns)
next
  fix base
  assume reach: "run_all cs process_start = Some s"
    and b: "current_engine s = Some base"
    and nn: "enab (core base) \<noteq> NilEnabler"
    and wr: "Write_returns (out (core base))"
    and l: "l \<notin> {''panic'', ''PANIC'', ''fatal'', ''FATAL''}"
  from reach have r: "ready s" by (rule after_start_ready)
  from nn obtain admitted where en: "Enabled (enab (core base)) (label_level l) = Some admitted"
    by (cases "enab (core base)") simp_all
  from l have "label_level l \<noteq> PanicLevel" "label_level l \<noteq> FatalLevel"
    by (simp_all add: label_level_def)
  with Write_sound [OF r b en _ this, of b] wr
  show "returned_value (ZapLogWriter_Write (NewZapLogWriter l) b s) =
      Some (int (length b), None)"
    by (simp add: returned_value_def)
next
  fix base
  assume reach: "run_all cs process_start = Some s"
    and b: "current_engine s = Some base"
    and bad: "enab (core base) = NilEnabler \<or>
         Enabled (enab (core base)) (label_level l) = Some True \<and>
         \<not> Write_returns (out (core base))"
  from reach have r: "ready s" by (rule after_start_ready)
  from r b bad show "panicked (ZapLogWriter_Write (NewZapLogWriter l) b s)"
    by (rule Write_panics)
qed

theorem Write_returns_unless_panic_or_fatal_witness:
  "returned_value (ZapLogWriter_Write (NewZapLogWriter ''error'') ''boom'' process_start) =
     Some (4, None) \<and>
   returned_value (ZapLogWriter_Write (NewZapLogWriter ''PANIC'') ''boom'' process_start) = None"
proof -
  have reach: "run_all [] process_start = Some process_start"
    by simp
  note eng = process_start_engine
  from Write_returns_unless_panic_or_fatal [of "Some \<lparr>level = ''error''\<rparr>" "''boom''"
      process_start "''error''" "[]" process_start,
      THEN conjunct2, THEN conjunct2, rule_format, OF reach, THEN conjunct1, rule_format,
      OF eng]
  have "returned_value (ZapLogWriter_Write (NewZapLogWriter ''error'') ''boom'' process_start) =
     Some (4, None)"
    by simp
  moreover from Write_returns_unless_panic_or_fatal [of "Some \<lparr>level = ''PANIC''\<rparr>" "''boom''"
      process_start "''PANIC''" "[]" process_start, THEN conjunct2, THEN conjunct1]
  have "returned_value (ZapLogWriter_Write (NewZapLogWriter ''PANIC'') ''boom'' process_start) =
      None"
    by simp
  ultimately show ?thesis by blast
qed

subsection \<open>C6\<close>

text \<open>
  Claim C6. In every state, an adapter with the empty label and an adapter with a label
  that no case of the switch names each end a write exactly as the adapter labelled
  \<^verbatim>\<open>info\<close> does. After startup the call that write hands to the current engine is one
  call at info severity carrying the buffer, however the engine ends it. If the engine's
  threshold is not nil and its sink's \<^verbatim>\<open>Write\<close> returns, the write returns the buffer's
  length with no error; if the threshold admits info as well, exactly one record, at
  info severity, has been written.
\<close>

theorem Write_defaults_to_info:
  "ZapLogWriter_Write (NewZapLogWriter []) b s =
     ZapLogWriter_Write (NewZapLogWriter ''info'') b s \<and>
   (l \<notin> set case_labels \<longrightarrow>
      ZapLogWriter_Write (NewZapLogWriter l) b s =
        ZapLogWriter_Write (NewZapLogWriter ''info'') b s) \<and>
   (run_all cs process_start = Some s \<longrightarrow>
      (\<exists>base. current_engine s = Some base \<and>
         emitted_by (ZapLogWriter_Write (NewZapLogWriter ''info'') b s) =
           Some (emitted s @
             [\<lparr>engine = base, severity = InfoLevel, form = Plain,
               arguments = [VString b]\<rparr>]) \<and>
         (enab (core base) \<noteq> NilEnabler \<and> Write_returns (out (core base)) \<longrightarrow>
            returned_value (ZapLogWriter_Write (NewZapLogWriter ''info'') b s) =
              Some (int (length b), None)) \<and>
         (Enabled (enab (core base)) InfoLevel = Some True \<and>
          Write_returns (out (core base)) \<longrightarrow>
            ZapLogWriter_Write (NewZapLogWriter ''info'') b s =
              Returns (int (length b), None)
                (s\<lparr>emitted := emitted s @
                     [\<lparr>engine = base, severity = InfoLevel, form = Plain,
                       arguments = [VString b]\<rparr>],
                   recorded := recorded s @
                     [\<lparr>engine = base, severity = InfoLevel, form = Plain,
                       arguments = [VString b]\<rparr>]\<rparr>))))"
proof (intro conjI impI)
  show "ZapLogWriter_Write (NewZapLogWriter []) b s =
      ZapLogWriter_Write (NewZapLogWriter ''info'') b s"
    by (rule Write_by_level) (simp add: label_level_simps)
next
  assume "l \<notin> set case_labels"
  then show "ZapLogWriter_Write (NewZapLogWriter l) b s =
      ZapLogWriter_Write (NewZapLogWriter ''info'') b s"
    by (intro Write_by_level) (simp add: label_level_unrecognised label_level_simps)
next
  assume "run_all cs process_start = Some s"
  then have r: "ready s" by (rule after_start_ready)
  then obtain base where b: "current_engine s = Some base"
    using ready_engine by blast
  have e: "emitted_by (ZapLogWriter_Write (NewZapLogWriter ''info'') b s) =
      Some (emitted s @
        [\<lparr>engine = base, severity = InfoLevel, form = Plain, arguments = [VString b]\<rparr>])"
    using Write_emitted_by [OF r b, of "''info''" b] by (simp add: label_level_simps)
  have t: "returned_value (ZapLogWriter_Write (NewZapLogWriter ''info'') b s) =
      Some (int (length b), None)"
    if "enab (core base) \<noteq> NilEnabler \<and> Write_returns (out (core base))"
  proof -
    from that obtain admitted where "Enabled (enab (core base)) InfoLevel = Some admitted"
      by (cases "enab (core base)") simp_all
    with that Write_sound [OF r b, of "''info''" admitted b] show ?thesis
      by (simp add: label_level_simps returned_value_def)
  qed
  have w: "ZapLogWriter_Write (NewZapLogWriter ''info'') b s =
      Returns (int (length b), None)
        (s\<lparr>emitted := emitted s @
             [\<lparr>engine = base, severity = InfoLevel, form = Plain, arguments = [VString b]\<rparr>],
           recorded := recorded s @
             [\<lparr>engine = base, severity = InfoLevel, form = Plain,
               arguments = [VString b]\<rparr>]\<rparr>)"
    if "Enabled (enab (core base)) InfoLevel = Some True \<and> Write_returns (out (core base))"
    using that Write_sound [OF r b, of "''info''" True b]
    by (simp add: label_level_simps)
  from b e t w show "\<exists>base. current_engine s = Some base \<and>
         emitted_by (ZapLogWriter_Write (NewZapLogWriter ''info'') b s) =
           Some (emitted s @
             [\<lparr>engine = base, severity = InfoLevel, form = Plain,
               arguments = [VString b]\<rparr>]) \<and>
         (enab (core base) \<noteq> NilEnabler \<and> Write_returns (out (core base)) \<longrightarrow>
            returned_value (ZapLogWriter_Write (NewZapLogWriter ''info'') b s) =
              Some (int (length b), None)) \<and>
         (Enabled (enab (core base)) InfoLevel = Some True \<and>
          Write_returns (out (core base)) \<longrightarrow>
            ZapLogWriter_Write (NewZapLogWriter ''info'') b s =
              Returns (int (length b), None)
                (s\<lparr>emitted := emitted s @
                     [\<lparr>engine = base, severity = InfoLevel, form = Plain,
                       arguments = [VString b]\<rparr>],
                   recorded := recorded s @
                     [\<lparr>engine = base, severity = InfoLevel, form = Plain,
                       arguments = [VString b]\<rparr>]\<rparr>))"
    by blast
qed

theorem Write_defaults_to_info_witness:
  "ZapLogWriter_Write (NewZapLogWriter ''verbose'') ''hi'' process_start =
     ZapLogWriter_Write (NewZapLogWriter ''info'') ''hi'' process_start \<and>
   ZapLogWriter_Write (NewZapLogWriter []) ''hi'' process_start =
     ZapLogWriter_Write (NewZapLogWriter ''info'') ''hi'' process_start \<and>
   ZapLogWriter_Write (NewZapLogWriter ''info'') ''hi'' process_start =
     Returns (2, None)
       (process_start
          \<lparr>emitted :=
             [\<lparr>engine = \<lparr>core = \<lparr>enc = getEncoder, out = AddSync os_Stdout,
                                    enab = LevelOf DebugLevel\<rparr>,
                          addCaller = True, callerSkip = 1, development = False\<rparr>,
               severity = InfoLevel, form = Plain, arguments = [VString ''hi'']\<rparr>],
           recorded :=
             [\<lparr>engine = \<lparr>core = \<lparr>enc = getEncoder, out = AddSync os_Stdout,
                                    enab = LevelOf DebugLevel\<rparr>,
                          addCaller = True, callerSkip = 1, development = False\<rparr>,
               severity = InfoLevel, form = Plain, arguments = [VString ''hi'']\<rparr>]\<rparr>)"
proof -
  note inst = Write_defaults_to_info [of "''hi''" process_start "''verbose''" "[]"]
  have "''verbose'' \<notin> set case_labels"
    by (simp add: case_labels_def)
  with inst have "ZapLogWriter_Write (NewZapLogWriter ''verbose'') ''hi'' process_start =
      ZapLogWriter_Write (NewZapLogWriter ''info'') ''hi'' process_start"
    by blast
  moreover from inst have "ZapLogWriter_Write (NewZapLogWriter []) ''hi'' process_start =
      ZapLogWriter_Write (NewZapLogWriter ''info'') ''hi'' process_start"
    by blast
  moreover have reach: "run_all [] process_start = Some process_start"
    by simp
  from inst [THEN conjunct2, THEN conjunct2, rule_format, OF reach]
  have "ZapLogWriter_Write (NewZapLogWriter ''info'') ''hi'' process_start =
     Returns (2, None)
       (process_start
          \<lparr>emitted :=
             [\<lparr>engine = \<lparr>core = \<lparr>enc = getEncoder, out = AddSync os_Stdout,
                                    enab = LevelOf DebugLevel\<rparr>,
                          addCaller = True, callerSkip = 1, development = False\<rparr>,
               severity = InfoLevel, form = Plain, arguments = [VString ''hi'']\<rparr>],
           recorded :=
             [\<lparr>engine = \<lparr>core = \<lparr>enc = getEncoder, out = AddSync os_Stdout,
                                    enab = LevelOf DebugLevel\<rparr>,
                          addCaller = True, callerSkip = 1, development = False\<rparr>,
               severity = InfoLevel, form = Plain, arguments = [VString ''hi'']\<rparr>]\<rparr>)"
    by (auto simp: process_start_engine process_start_emitted process_start_recorded)
  ultimately show ?thesis by blast
qed

subsection \<open>C7\<close>

text \<open>
  Claim C7 fails as it is stated. After the global logger has been reinitialised with
  the error level as its threshold, writing \<^verbatim>\<open>hello\<close> through an adapter labelled
  \<^verbatim>\<open>warn\<close> returns 5 with no error, but the engine's threshold does not admit warn and
  no record is written.
\<close>

theorem Write_warn_filtered_counterexample:
  "run_all [Call_InitDefaultLogger (Some 0) (LevelOf ErrorLevel)] process_start =
     Some (process_start
       \<lparr>defaultZapLogger := Some (handle_for (Some 0) os_Stdout (LevelOf ErrorLevel))\<rparr>) \<and>
   ZapLogWriter_Write (NewZapLogWriter ''warn'') ''hello''
     (process_start
       \<lparr>defaultZapLogger := Some (handle_for (Some 0) os_Stdout (LevelOf ErrorLevel))\<rparr>) =
     Returns (5, None)
       (process_start
         \<lparr>defaultZapLogger := Some (handle_for (Some 0) os_Stdout (LevelOf ErrorLevel)),
          emitted :=
            [\<lparr>engine = \<lparr>core = \<lparr>enc = getEncoder, out = AddSync os_Stdout,
                                   enab = LevelOf ErrorLevel\<rparr>,
                         addCaller = True, callerSkip = 1, development = False\<rparr>,
              severity = WarnLevel, form = Plain, arguments = [VString ''hello'']\<rparr>]\<rparr>) \<and>
   recorded
     (process_start
       \<lparr>defaultZapLogger := Some (handle_for (Some 0) os_Stdout (LevelOf ErrorLevel)),
        emitted :=
          [\<lparr>engine = \<lparr>core = \<lparr>enc = getEncoder, out = AddSync os_Stdout,
                                 enab = LevelOf ErrorLevel\<rparr>,
                       addCaller = True, callerSkip = 1, development = False\<rparr>,
            severity = WarnLevel, form = Plain, arguments = [VString ''hello'']\<rparr>]\<rparr>) = []"
proof -
  let ?s = "process_start
       \<lparr>defaultZapLogger := Some (handle_for (Some 0) os_Stdout (LevelOf ErrorLevel))\<rparr>"
  let ?base = "\<lparr>core = \<lparr>enc = getEncoder, out = AddSync os_Stdout, enab = LevelOf ErrorLevel\<rparr>,
                addCaller = True, callerSkip = 1, development = False\<rparr>"
  have step: "run (Call_InitDefaultLogger (Some 0) (LevelOf ErrorLevel)) process_start = Some ?s"
    by (simp add: final_state_def process_start_eq InitDefaultLogger_def andThen_def Lock_def
        Unlock_def NewZapLogger_def load_def store_def Let_def handle_for_def zap_New_fields
        NewCore_def)
  have r: "ready ?s"
    using process_start_ready step by (rule run_ready)
  have e: "current_engine ?s = Some ?base"
    by simp
  have "ZapLogWriter_Write (NewZapLogWriter ''warn'') ''hello'' ?s =
      Returns (5, None)
        (?s\<lparr>emitted := emitted ?s @
              [\<lparr>engine = ?base, severity = WarnLevel, form = Plain,
                arguments = [VString ''hello'']\<rparr>],
            recorded := recorded ?s\<rparr>)"
    using Write_sound [OF r e, of "''warn''" False "''hello''"]
    by (simp add: label_level_simps)
  then show ?thesis
    using step by (simp add: process_start_emitted process_start_recorded)
qed

text \<open>
  Claim C7, amended. In a state reached after startup by calls that returned, if the
  current handle's threshold admits warn (as the debug threshold set at startup does) and
  its sink's \<^verbatim>\<open>Write\<close> returns, writing the buffer \<^verbatim>\<open>hello\<close> through an adapter labelled
  \<^verbatim>\<open>warn\<close> hands the current engine one call, has exactly one record written, at warn
  severity and carrying \<^verbatim>\<open>hello\<close>, changes nothing else, and returns 5 with no error.
\<close>

theorem Write_warn_hello:
  assumes "run_all cs process_start = Some s"
    and "current_engine s = Some base"
    and "Enabled (enab (core base)) WarnLevel = Some True"
    and "Write_returns (out (core base))"
  shows "ZapLogWriter_Write (NewZapLogWriter ''warn'') ''hello'' s =
       Returns (5, None)
         (s\<lparr>emitted := emitted s @
              [\<lparr>engine = base, severity = WarnLevel, form = Plain,
                arguments = [VString ''hello'']\<rparr>],
            recorded := recorded s @
              [\<lparr>engine = base, severity = WarnLevel, form = Plain,
                arguments = [VString ''hello'']\<rparr>]\<rparr>)"
proof -
  from assms(1) have r: "ready s" by (rule after_start_ready)
  show ?thesis
    using assms(3,4) Write_sound [OF r assms(2), of "''warn''" True "''hello''"]
    by (simp add: label_level_simps)
qed

theorem Write_warn_hello_witness:
  "ZapLogWriter_Write (NewZapLogWriter ''warn'') ''hello'' process_start =
     Returns (5, None)
       (process_start
          \<lparr>emitted :=
             [\<lparr>engine = \<lparr>core = \<lparr>enc = getEncoder, out = AddSync os_Stdout,
                                    enab = LevelOf DebugLevel\<rparr>,
                          addCaller = True, callerSkip = 1, development = False\<rparr>,
               severity = WarnLevel, form = Plain, arguments = [VString ''hello'']\<rparr>],
           recorded :=
             [\<lparr>engine = \<lparr>core = \<lparr>enc = getEncoder, out = AddSync os_Stdout,
                                    enab = LevelOf DebugLevel\<rparr>,
                          addCaller = True, callerSkip = 1, development = False\<rparr>,
               severity = WarnLevel, form = Plain, arguments = [VString ''hello'']\<rparr>]\<rparr>)"
proof -
  have reach: "run_all [] process_start = Some process_start"
    by simp
  have adm: "Enabled (enab (core \<lparr>core = \<lparr>enc = getEncoder, out = AddSync os_Stdout,
      enab = LevelOf DebugLevel\<rparr>, addCaller = True, callerSkip = 1,
      development = False\<rparr>)) WarnLevel = Some True"
    by simp
  have wr: "Write_returns (out (core \<lparr>core = \<lparr>enc = getEncoder, out = AddSync os_Stdout,
      enab = LevelOf DebugLevel\<rparr>, addCaller = True, callerSkip = 1,
      development = False\<rparr>))"
    by simp
  from Write_warn_hello [OF reach process_start_engine adm wr] show ?thesis
    by (simp add: process_start_emitted process_start_recorded)
qed

subsection \<open>C8\<close>

text \<open>
  Claim C8. For each of the six severities debug, info, warn, error, fatal and dpanic and
  each of the two forms there is exactly one emission function, and every emission
  function has one of these severities. After startup, each global function ends exactly
  as the method of the same name does on the handle in the global slot, for all
  arguments, having handed the current engine one call of that severity and form.
\<close>

theorem global_delegates_like_method:
  "(\<forall>lvl \<in> set emission_levels. \<forall>fmt.
      \<exists>!ep. entry_level ep = lvl \<and> entry_formatted ep = fmt) \<and>
   entry_level ep \<in> set emission_levels \<and>
   (run_all cs process_start = Some s \<longrightarrow>
      global_fn ep template args s = method_fn ep (defaultZapLogger s) template args s \<and>
      (\<exists>base. current_engine s = Some base \<and>
         emitted_by (global_fn ep template args s) =
           Some (emitted s @
             [\<lparr>engine = base, severity = entry_level ep, form = entry_form ep template,
               arguments = args\<rparr>])))"
proof (intro conjI impI ballI allI)
  fix lvl fmt
  assume "lvl \<in> set emission_levels"
  then obtain ep0 where "entry_level ep0 = lvl \<and> entry_formatted ep0 = fmt"
    using entry_point_exists by blast
  then show "\<exists>!ep. entry_level ep = lvl \<and> entry_formatted ep = fmt"
    by (intro ex1I [of _ ep0]) (auto intro: entry_point_inj)
next
  show "entry_level ep \<in> set emission_levels"
    by (rule entry_level_listed)
next
  assume "run_all cs process_start = Some s"
  then have r: "ready s" by (rule after_start_ready)
  then obtain base where b: "current_engine s = Some base"
    using ready_engine by blast
  from r have "lock_free s" by (simp add: ready_def)
  then show "global_fn ep template args s = method_fn ep (defaultZapLogger s) template args s"
    by (rule global_fn_method_fn)
  show "\<exists>base. current_engine s = Some base \<and>
         emitted_by (global_fn ep template args s) =
           Some (emitted s @
             [\<lparr>engine = base, severity = entry_level ep, form = entry_form ep template,
               arguments = args\<rparr>])"
    using b global_fn_emitted_by [OF r b] by simp
qed

theorem global_delegates_like_method_witness:
  "(\<exists>!ep. entry_level ep = WarnLevel \<and> entry_formatted ep = True) \<and>
   Warnf ''disk %d%% full'' [VOther 93] process_start =
     ZapLogger_Warnf (defaultZapLogger process_start) ''disk %d%% full'' [VOther 93]
       process_start \<and>
   emitted_by (Warnf ''disk %d%% full'' [VOther 93] process_start) =
     Some [\<lparr>engine = \<lparr>core = \<lparr>enc = getEncoder, out = AddSync os_Stdout,
                                   enab = LevelOf DebugLevel\<rparr>,
                         addCaller = True, callerSkip = 1, development = False\<rparr>,
            severity = WarnLevel, form = Formatted ''disk %d%% full'',
            arguments = [VOther 93]\<rparr>]"
proof -
  note inst = global_delegates_like_method [of EP_Warnf "[]" process_start
      "''disk %d%% full''" "[VOther 93]"]
  have "WarnLevel \<in> set emission_levels"
    by (simp add: emission_levels_def)
  with inst have "\<exists>!ep. entry_level ep = WarnLevel \<and> entry_formatted ep = True"
    by blast
  moreover have started: "run_all [] process_start = Some process_start"
    by simp
  note after = inst [THEN conjunct2, THEN conjunct2, rule_format, OF started]
  from after [THEN conjunct1] have
    "Warnf ''disk %d%% full'' [VOther 93] process_start =
       ZapLogger_Warnf (defaultZapLogger process_start) ''disk %d%% full'' [VOther 93]
         process_start"
    by simp
  moreover from after [THEN conjunct2] have
    "emitted_by (Warnf ''disk %d%% full'' [VOther 93] process_start) =
       Some [\<lparr>engine = \<lparr>core = \<lparr>enc = getEncoder, out = AddSync os_Stdout,
                                     enab = LevelOf DebugLevel\<rparr>,
                           addCaller = True, callerSkip = 1, development = False\<rparr>,
              severity = WarnLevel, form = Formatted ''disk %d%% full'',
              arguments = [VOther 93]\<rparr>]"
    by (simp add: entry_form_def process_start_engine process_start_emitted)
  ultimately show ?thesis by blast
qed

subsection \<open>C9\<close>

text \<open>
  Claim C9. The null sink's \<^verbatim>\<open>Write\<close> returns the length of the buffer and no error,
  for every receiver, buffer and state, and leaves the state as it was.
\<close>

theorem NullWriter_Write_discards:
  "NullWriter_Write n b s = Returns (int (length b), None) s"
  by (simp add: NullWriter_Write_def)

theorem NullWriter_Write_discards_witness:
  "NullWriter_Write (Some NullWriter) ''abc'' process_start = Returns (3, None) process_start"
  using NullWriter_Write_discards [of "Some NullWriter" "''abc''" process_start]
  by simp

subsection \<open>C10\<close>

text \<open>
  Claim C10. The constructor writes to the caller's own struct. After the call the struct
  at the address passed in has its non-positive thresholds replaced by the defaults and,
  if resolution of its destination failed, standard output as its destination; no other
  struct, and nothing else in the state, has changed, nothing was allocated, and the
  handle's \<^verbatim>\<open>config\<close> field is the very address passed in.
\<close>

theorem NewZapLogger_mutates_caller_struct:
  assumes "a < length (heap s)"
  shows "\<exists>zl.
     NewZapLogger (Some a) logLevel s =
       Returns zl
         (s\<lparr>heap := (heap s)
            [a := \<lparr>FilenameOrIoWriter =
                     (if isl (getWriter (heap s ! a)) then VWriter os_Stdout
                      else FilenameOrIoWriter (heap s ! a)),
                   FileMaxSize =
                     (if FileMaxSize (heap s ! a) \<le> 0 then 100 else FileMaxSize (heap s ! a)),
                   FileMaxBackup =
                     (if FileMaxBackup (heap s ! a) \<le> 0 then 3
                      else FileMaxBackup (heap s ! a)),
                   FileMaxAge =
                     (if FileMaxAge (heap s ! a) \<le> 0 then 30 else FileMaxAge (heap s ! a)),
                   FileCompress = FileCompress (heap s ! a)\<rparr>]\<rparr>) \<and>
     config zl = Some a"
proof -
  let ?c = "heap s ! a"
  from assms have ld: "load (Some a) s = Some ?c"
    by (simp add: load_def)
  have "snd (resolved ?c) =
      \<lparr>FilenameOrIoWriter =
         (if isl (getWriter ?c) then VWriter os_Stdout else FilenameOrIoWriter ?c),
       FileMaxSize = (if FileMaxSize ?c \<le> 0 then 100 else FileMaxSize ?c),
       FileMaxBackup = (if FileMaxBackup ?c \<le> 0 then 3 else FileMaxBackup ?c),
       FileMaxAge = (if FileMaxAge ?c \<le> 0 then 30 else FileMaxAge ?c),
       FileCompress = FileCompress ?c\<rparr>"
    by (cases "FilenameOrIoWriter ?c") (simp_all add: resolved_def with_defaults_def)
  then show ?thesis
    using NewZapLogger_resolved [OF ld, of logLevel]
    by (simp add: store_def handle_for_def Let_def)
qed

theorem NewZapLogger_mutates_caller_struct_witness:
  "\<exists>zl.
     NewZapLogger (Some 1) (LevelOf DebugLevel)
       (process_start\<lparr>heap := heap process_start @ [zero_LogConfig]\<rparr>) =
       Returns zl
         (process_start\<lparr>heap := heap process_start @
            [\<lparr>FilenameOrIoWriter = VWriter os_Stdout, FileMaxSize = 100, FileMaxBackup = 3,
              FileMaxAge = 30, FileCompress = False\<rparr>]\<rparr>) \<and>
     config zl = Some 1"
  using NewZapLogger_mutates_caller_struct [of 1
      "process_start\<lparr>heap := heap process_start @ [zero_LogConfig]\<rparr>" "LevelOf DebugLevel"]
  by (simp add: process_start_eq zero_LogConfig_def)

end
